theory Spec2Isabelle
  imports Complex_Main
begin

section \<open>The quantum model of \<open>utils/instructor.py\<close>\<close>

text \<open>
  Floating-point numbers are modelled as \<^typ>\<open>real\<close>. The quantum simulator, the random
  generator, automatic differentiation and the Adam update belong to PennyLane and NumPy;
  they enter the model as parameters. What \<open>Model\<close> itself does is to queue gate
  operations on the tape of its QNode and to name the measurement: this is what the
  functions below compute.
\<close>

subsection \<open>Errors\<close>

text \<open>
  The Python exceptions that occur, by class. \<open>BroadcastError\<close> stands for the exception
  PennyLane raises when a tape holds an array parameter without entries; the model does
  not name its class.
\<close>

datatype error =
  AttributeError | AssertionError | IndexError | ValueError | TypeError | BroadcastError

subsection \<open>Operations queued on the tape\<close>

text \<open>
  Wires and loop indices come out of \<open>range(n)\<close>, so they are natural numbers. Only
  \<open>RY\<close> carries the encoded input, whose type \<open>'x\<close> is left open: the circuit
  function never inspects it (it is a scalar, or an array under parameter broadcasting).
\<close>

datatype 'x op =
    RX real nat
  | RZ real nat
  | CRX real nat nat
  | RY 'x nat
  | BitFlip real nat
  | PhaseFlip real nat
  | AmplitudeDamping real nat
  | PhaseDamping real nat
  | DepolarizingChannel real nat

datatype measurement = State | Expval_PauliZ nat

record noise =
  bf :: real
  pf :: real
  ad :: real
  pd :: real
  dp :: real

subsection \<open>Weights: a nested Python list or a NumPy array\<close>

text \<open>
  An array has a shape and its entries in row-major order. The dashboard hands weights
  over as nested lists (session storage is JSON); \<open>Instructor\<close> holds and returns arrays.
\<close>

record ndarray =
  shape :: "nat list"
  data :: "real list"

datatype pyweights = PyList "real list list" | NdArray ndarray

definition py_range :: "int \<Rightarrow> nat list" where
  "py_range n = [0..<nat n]"

definition getitem :: "'a list \<Rightarrow> nat \<Rightarrow> error + 'a" where
  "getitem xs i = (if i < length xs then Inr (xs ! i) else Inl IndexError)"

text \<open>
  \<open>w[l]\<close>: an entry of a list, or the sub-array at index \<open>l\<close> of the first axis (for a
  two-dimensional array, row \<open>l\<close>).
\<close>

fun row_of :: "pyweights \<Rightarrow> nat \<Rightarrow> error + real list" where
  "row_of (PyList rows) l = getitem rows l"
| "row_of (NdArray a) l =
     (case shape a of
        [] \<Rightarrow> Inl IndexError
      | r # rest \<Rightarrow>
          if l < r then Inr (take (prod_list rest) (drop (l * prod_list rest) (data a)))
          else Inl IndexError)"

fun is_list :: "pyweights \<Rightarrow> bool" where
  "is_list (PyList rows) = True"
| "is_list (NdArray a) = False"

subsection \<open>\<open>Model\<close>\<close>

datatype ansatz = Pqc19

record device =
  dev_name :: string
  dev_wires :: int

record model =
  n_qubits :: int
  n_layers :: int
  state_vector :: bool
  pqc :: ansatz
  n_params :: "int list"
  dev :: device

text \<open>\<open>_n_params_circ19\<close>: the tuple \<open>(n_layers, n_qubits*3 - 1)\<close>.\<close>

definition n_params_circ19 :: "int \<Rightarrow> int \<Rightarrow> int list" where
  "n_params_circ19 nq nl = [nl, nq * 3 - 1]"

text \<open>
  \<open>qml.device("default.mixed", wires=n)\<close> is PennyLane's: the mixed-state simulator
  refuses more than 23 wires with \<open>ValueError\<close>; otherwise the model records the
  arguments.
\<close>

definition qml_device :: "string \<Rightarrow> int \<Rightarrow> error + device" where
  "qml_device name wires =
     (if wires > 23 then Inl ValueError
      else Inr \<lparr>dev_name = name, dev_wires = wires\<rparr>)"

text \<open>
  \<open>Model.__init__\<close>: the two \<open>getattr\<close> look-ups find a method only for
  \<open>circuit_type = 19\<close> and raise \<open>AttributeError\<close> otherwise; then the device is
  created. The counts themselves are not checked.
\<close>

definition Model_init :: "int \<Rightarrow> int \<Rightarrow> int \<Rightarrow> bool \<Rightarrow> error + model" where
  "Model_init nq nl circuit_type sv =
     (if circuit_type = 19 then
        (case qml_device ''default.mixed'' nq of
           Inl e \<Rightarrow> Inl e
         | Inr d \<Rightarrow>
             Inr \<lparr>n_qubits = nq, n_layers = nl, state_vector = sv, pqc = Pqc19,
                  n_params = n_params_circ19 nq nl, dev = d\<rparr>)
      else Inl AttributeError)"

text \<open>
  \<open>_pqc19\<close>, first loop: for each qubit an \<open>RX\<close> and an \<open>RZ\<close>, the weight index
  \<open>w_idx\<close> advancing by one after each. The result is the operations queued and the
  index reached.
\<close>

fun pqc19_rot :: "real list \<Rightarrow> nat list \<Rightarrow> nat \<Rightarrow> error + ('x op list \<times> nat)" where
  "pqc19_rot w [] w_idx = Inr ([], w_idx)"
| "pqc19_rot w (q # qs) w_idx =
     (case getitem w w_idx of
        Inl e \<Rightarrow> Inl e
      | Inr a \<Rightarrow>
          (case getitem w (w_idx + 1) of
             Inl e \<Rightarrow> Inl e
           | Inr b \<Rightarrow>
               (case pqc19_rot w qs (w_idx + 2) of
                  Inl e \<Rightarrow> Inl e
                | Inr (ops, j) \<Rightarrow> Inr (RX a q # RZ b q # ops, j))))"

text \<open>\<open>_pqc19\<close>, second loop: for each qubit \<open>q > 0\<close> a \<open>CRX\<close> on wires \<open>[q, (q + 1) % n_qubits]\<close>.\<close>

fun pqc19_ent :: "int \<Rightarrow> real list \<Rightarrow> nat list \<Rightarrow> nat \<Rightarrow> error + ('x op list \<times> nat)" where
  "pqc19_ent n w [] w_idx = Inr ([], w_idx)"
| "pqc19_ent n w (q # qs) w_idx =
     (if q > 0 then
        (case getitem w w_idx of
           Inl e \<Rightarrow> Inl e
         | Inr a \<Rightarrow>
             (case pqc19_ent n w qs (w_idx + 1) of
                Inl e \<Rightarrow> Inl e
              | Inr (ops, j) \<Rightarrow> Inr (CRX a q (nat ((int q + 1) mod n)) # ops, j)))
      else pqc19_ent n w qs w_idx)"

definition pqc19 :: "int \<Rightarrow> real list \<Rightarrow> error + 'x op list" where
  "pqc19 n w =
     (case pqc19_rot w (py_range n) 0 of
        Inl e \<Rightarrow> Inl e
      | Inr (ops1, w_idx) \<Rightarrow>
          (case pqc19_ent n w (py_range n) w_idx of
             Inl e \<Rightarrow> Inl e
           | Inr (ops2, j) \<Rightarrow> Inr (ops1 @ ops2)))"

fun run_pqc :: "model \<Rightarrow> real list \<Rightarrow> error + 'x op list" where
  "run_pqc m w = (case pqc m of Pqc19 \<Rightarrow> pqc19 (n_qubits m) w)"

text \<open>\<open>iec\<close>: an \<open>RY\<close> with the input as angle on every qubit.\<close>

primrec iec_loop :: "'x \<Rightarrow> nat list \<Rightarrow> 'x op list" where
  "iec_loop x [] = []"
| "iec_loop x (q # qs) = RY x q # iec_loop x qs"

definition iec :: "int \<Rightarrow> 'x \<Rightarrow> 'x op list" where
  "iec n x = iec_loop x (py_range n)"

text \<open>The noise loop of \<open>_circuit\<close>: five channels on each qubit.\<close>

primrec noise_loop :: "noise \<Rightarrow> nat list \<Rightarrow> 'x op list" where
  "noise_loop np [] = []"
| "noise_loop np (q # qs) =
     BitFlip (bf np) q # PhaseFlip (pf np) q # AmplitudeDamping (ad np) q
       # PhaseDamping (pd np) q # DepolarizingChannel (dp np) q # noise_loop np qs"

text \<open>The layer loop of \<open>_circuit\<close>.\<close>

fun circuit_layers :: "model \<Rightarrow> pyweights \<Rightarrow> 'x \<Rightarrow> noise \<Rightarrow> nat list \<Rightarrow> error + 'x op list" where
  "circuit_layers m w x np [] = Inr []"
| "circuit_layers m w x np (l # ls) =
     (case row_of w l of
        Inl e \<Rightarrow> Inl e
      | Inr wl \<Rightarrow>
          (case run_pqc m wl of
             Inl e \<Rightarrow> Inl e
           | Inr ops \<Rightarrow>
               (case circuit_layers m w x np ls of
                  Inl e \<Rightarrow> Inl e
                | Inr rest \<Rightarrow>
                    Inr (iec (n_qubits m) x @ ops
                           @ noise_loop np (py_range (n_qubits m)) @ rest))))"

text \<open>
  \<open>w.shape == self.n_params\<close>: a tuple of array extents against a tuple of Python
  integers. It is evaluated for arrays only, \<open>isinstance(w, list)\<close> coming first.
\<close>

fun shape_matches :: "pyweights \<Rightarrow> int list \<Rightarrow> bool" where
  "shape_matches (PyList rows) ps = False"
| "shape_matches (NdArray a) ps = (map int (shape a) = ps)"

text \<open>\<open>_circuit\<close>: the assertion, the layers, the measurement returned.\<close>

definition circuit :: "model \<Rightarrow> pyweights \<Rightarrow> 'x \<Rightarrow> noise \<Rightarrow> error + ('x op list \<times> measurement)" where
  "circuit m w x np =
     (if \<not> (is_list w \<or> shape_matches w (n_params m)) then Inl AssertionError
      else
        (case circuit_layers m w x np (py_range (n_layers m)) of
           Inl e \<Rightarrow> Inl e
         | Inr ops \<Rightarrow> Inr (ops, if state_vector m then State else Expval_PauliZ 0)))"

subsection \<open>Running the QNode\<close>

text \<open>
  The encoded input is one number or an array of numbers, the result an expectation value
  or a density matrix for each.
\<close>

datatype 'a batched = Single 'a | Batch "'a list"

datatype qout = Expval "real batched" | DensityMatrix "complex list list batched"

text \<open>
  Modelled from the spec: executing the QNode is PennyLane's and not among the sources.
  The spec has \<open>forward\<close> evaluate the model at every point of the domain and return one
  scalar per point, in input order. This is PennyLane's parameter broadcasting: a tape
  that holds an array parameter is evaluated once per entry, in order, and the results
  are stacked; a tape without such a parameter is evaluated once. \<open>tape_batch\<close> is the
  number of entries, if the tape holds an array parameter.
\<close>

fun tape_batch :: "real batched op list \<Rightarrow> nat option" where
  "tape_batch [] = None"
| "tape_batch (RY (Batch xs) q # ops) = Some (length xs)"
| "tape_batch (g # ops) = tape_batch ops"

text \<open>The \<open>i\<close>-th entry of an array parameter; a number stays as it is.\<close>

fun entry_at :: "nat \<Rightarrow> real batched \<Rightarrow> real" where
  "entry_at i (Single v) = v"
| "entry_at i (Batch xs) = xs ! i"

text \<open>
  Modelled from the spec: one evaluation \<open>f\<close> of the tape per entry of the array
  parameter, in the order of the entries (see \<open>tape_batch\<close>). With an array parameter
  that has no entry there is nothing to stack, and PennyLane raises.
\<close>

definition run_batched ::
  "(real op list \<Rightarrow> 'r) \<Rightarrow> real batched op list \<Rightarrow> error + 'r batched" where
  "run_batched f ops =
     (case tape_batch ops of
        None \<Rightarrow> Inr (Single (f (map (map_op (entry_at 0)) ops)))
      | Some k \<Rightarrow>
          if k = 0 then Inl BroadcastError
          else Inr (Batch (map (\<lambda>i. f (map (map_op (entry_at i)) ops)) [0..<k])))"

text \<open>
  What the program takes from its libraries, as parameters: the simulation of one tape on
  the \<open>default.mixed\<close> device (expectation of Pauli-Z on a wire, and the final density
  matrix), the seeded random generator (the \<open>i\<close>-th sample
  in \<open>[0, 1)\<close> drawn after seeding), the gradient of an objective, and the Adam optimizer
  (its initial state for a step size, and one update of an array by a gradient).
\<close>

record 'o ext =
  expval_Z :: "device \<Rightarrow> real op list \<Rightarrow> nat \<Rightarrow> real"
  density_matrix :: "device \<Rightarrow> real op list \<Rightarrow> complex list list"
  rng_random :: "int \<Rightarrow> nat \<Rightarrow> real"
  autograd :: "(ndarray \<Rightarrow> error + real) \<Rightarrow> ndarray \<Rightarrow> real list"
  adam_init :: "real \<Rightarrow> 'o"
  adam_apply :: "'o \<Rightarrow> real list \<Rightarrow> ndarray \<Rightarrow> ndarray \<times> 'o"

text \<open>The QNode's execution: the measurement named by \<open>_circuit\<close>, for each input.\<close>

definition execute ::
  "'o ext \<Rightarrow> device \<Rightarrow> real batched op list \<Rightarrow> measurement \<Rightarrow> error + qout" where
  "execute ext d ops meas =
     (case meas of
        State \<Rightarrow>
          (case run_batched (density_matrix ext d) ops of
             Inl e \<Rightarrow> Inl e
           | Inr r \<Rightarrow> Inr (DensityMatrix r))
      | Expval_PauliZ q \<Rightarrow>
          (case run_batched (\<lambda>t. expval_Z ext d t q) ops of
             Inl e \<Rightarrow> Inl e
           | Inr r \<Rightarrow> Inr (Expval r)))"

text \<open>\<open>Model.__call__\<close>: the QNode builds the tape with \<open>_circuit\<close> and executes it.\<close>

definition Model_call :: "'o ext \<Rightarrow> model \<Rightarrow> pyweights \<Rightarrow> real batched \<Rightarrow> noise \<Rightarrow> error + qout" where
  "Model_call ext m w x np =
     (case circuit m w x np of
        Inl e \<Rightarrow> Inl e
      | Inr (ops, meas) \<Rightarrow> execute ext (dev m) ops meas)"

section \<open>The \<open>Instructor\<close>\<close>

record 'o instructor =
  max_freq :: int
  model :: model
  x_d :: "real list"
  y_d :: "real list"
  weights :: ndarray
  opt :: 'o

subsection \<open>NumPy helpers\<close>

definition np_max :: "real list \<Rightarrow> real" where
  "np_max xs = fold max (tl xs) (hd xs)"

definition np_norm :: "real list \<Rightarrow> real" where
  "np_norm xs = sqrt (sum_list (map (\<lambda>x. x\<^sup>2) xs))"

text \<open>\<open>np.linspace(start, stop, num)\<close>, end point included.\<close>

definition np_linspace :: "real \<Rightarrow> real \<Rightarrow> nat \<Rightarrow> real list" where
  "np_linspace start stop num =
     map (\<lambda>i. start + real i * ((stop - start) / real (num - 1))) [0..<num]"

text \<open>
  \<open>np.random.default_rng(seed)\<close>: NumPy refuses a negative seed with \<open>ValueError\<close>; the
  generator is known by its seed.
\<close>

definition default_rng :: "int \<Rightarrow> error + int" where
  "default_rng seed = (if seed < 0 then Inl ValueError else Inr seed)"

text \<open>
  \<open>rng.random(size=(a, b))\<close>: NumPy refuses a negative extent with \<open>ValueError\<close>;
  otherwise the array is filled in row-major order with the generator's samples.
\<close>

definition rng_random_size :: "'o ext \<Rightarrow> int \<Rightarrow> int list \<Rightarrow> error + ndarray" where
  "rng_random_size ext rng dims =
     (if list_ex (\<lambda>d. d < 0) dims then Inl ValueError
      else Inr \<lparr>shape = map nat dims,
                data = map (rng_random ext rng) [0..<prod_list (map nat dims)]\<rparr>)"

text \<open>
  \<open>np.array(w)\<close>: a copy of an array; for a nested list the array of its rows, and
  \<open>ValueError\<close> when the rows differ in length.
\<close>

fun np_array :: "pyweights \<Rightarrow> error + ndarray" where
  "np_array (NdArray a) = Inr a"
| "np_array (PyList []) = Inr \<lparr>shape = [0], data = []\<rparr>"
| "np_array (PyList (r # rows)) =
     (if list_all (\<lambda>r'. length r' = length r) rows
      then Inr \<lparr>shape = [Suc (length rows), length r], data = concat (r # rows)\<rparr>
      else Inl ValueError)"

text \<open>\<open>len(w)\<close>; an array without axes has no length.\<close>

fun py_len :: "pyweights \<Rightarrow> error + nat" where
  "py_len (PyList rows) = Inr (length rows)"
| "py_len (NdArray a) = (case shape a of [] \<Rightarrow> Inl TypeError | r # rest \<Rightarrow> Inr r)"

text \<open>
  \<open>np.mean((y_d - y_pred) ** 2)\<close> for a vector of targets and the expectation values
  predicted, with NumPy's broadcasting of a scalar or a one-element vector. The mean of
  an empty array is NaN in NumPy, which the reals lack; the model has \<open>0\<close> there.
\<close>

definition np_mean :: "real list \<Rightarrow> real" where
  "np_mean zs = sum_list zs / real (length zs)"

fun sq_diff :: "real list \<Rightarrow> real batched \<Rightarrow> error + real list" where
  "sq_diff ys (Single p) = Inr (map (\<lambda>y. (y - p)\<^sup>2) ys)"
| "sq_diff ys (Batch ps) =
     (if length ys = length ps then Inr (map (\<lambda>(y, p). (y - p)\<^sup>2) (zip ys ps))
      else if length ps = 1 then Inr (map (\<lambda>y. (y - hd ps)\<^sup>2) ys)
      else if length ys = 1 then Inr (map (\<lambda>p. (hd ys - p)\<^sup>2) ps)
      else Inl ValueError)"

subsection \<open>Construction\<close>

text \<open>The target function \<open>y_fct\<close> of \<open>Instructor.__init__\<close>.\<close>

definition y_fct :: "real list \<Rightarrow> real \<Rightarrow> real" where
  "y_fct omega_d x = 1 / np_norm omega_d * sum_list (map (\<lambda>omega. cos (omega * x)) omega_d)"

text \<open>
  \<open>Instructor.__init__\<close>, in the order of the source: the model (which raises for more
  than 23 qubits), the generator (which raises for a negative seed), the domain and the
  targets, the initial weights (which cannot be drawn for a negative extent), the
  optimizer.
\<close>

definition Instructor_init :: "'o ext \<Rightarrow> int \<Rightarrow> int \<Rightarrow> int \<Rightarrow> error + 'o instructor" where
  "Instructor_init ext nq nl seed =
     (case Model_init nq nl 19 False of
        Inl e \<Rightarrow> Inl e
      | Inr m \<Rightarrow>
          (case default_rng seed of
             Inl e \<Rightarrow> Inl e
           | Inr rng \<Rightarrow>
               (let x_domain = [- 1 * pi, 1 * pi];
                    omega_d = [1, 2, 3];
                    n_d = nat \<lceil>2 * np_max (map abs x_domain) * np_max omega_d\<rceil>;
                    xs = np_linspace (x_domain ! 0) (x_domain ! 1) n_d;
                    ys = map (y_fct omega_d) xs
                in case rng_random_size ext rng [nl, nq * 3 - 1] of
                     Inl e \<Rightarrow> Inl e
                   | Inr r \<Rightarrow>
                       Inr \<lparr>max_freq = nq * nl, model = m, x_d = xs, y_d = ys,
                            weights = r\<lparr>data := map (\<lambda>u. 2 * pi * (1 - 2 * u)) (data r)\<rparr>,
                            opt = adam_init ext 0.05\<rparr>)))"

subsection \<open>\<open>forward\<close> and \<open>cost\<close>\<close>

definition forward ::
  "'o ext \<Rightarrow> 'o instructor \<Rightarrow> real batched \<Rightarrow> pyweights option \<Rightarrow> noise \<Rightarrow> error + qout" where
  "forward ext inst xs ws np =
     (let w = (case ws of Some w' \<Rightarrow> w' | None \<Rightarrow> NdArray (weights inst))
      in Model_call ext (model inst) w xs np)"

text \<open>
  \<open>cost\<close>. The model of an \<open>Instructor\<close> measures an expectation value; were it to
  return density matrices, they would not subtract from the target vector, and the model
  has \<open>ValueError\<close> for that branch, which no constructed \<open>Instructor\<close> reaches.
\<close>

definition cost ::
  "'o ext \<Rightarrow> 'o instructor \<Rightarrow> pyweights option \<Rightarrow> real list \<Rightarrow> noise \<Rightarrow> error + real" where
  "cost ext inst w ys np =
     (case forward ext inst (Batch (x_d inst)) w np of
        Inl e \<Rightarrow> Inl e
      | Inr (DensityMatrix ms) \<Rightarrow> Inl ValueError
      | Inr (Expval y_pred) \<Rightarrow>
          (case sq_diff ys y_pred of
             Inl e \<Rightarrow> Inl e
           | Inr zs \<Rightarrow> Inr (np_mean zs)))"

subsection \<open>\<open>step\<close>\<close>

text \<open>
  Modelled from the spec: \<open>AdamOptimizer.step_and_cost\<close> is PennyLane's and not among
  the sources. The spec has it perform one update by the gradient of the objective and
  return, with the updated argument, the objective's value computed during the step, that
  is at the argument it was given. An objective that raises lets the error through before
  anything is updated. The gradient and the update rule stay parameters.
\<close>

definition step_and_cost ::
  "'o ext \<Rightarrow> 'o \<Rightarrow> (ndarray \<Rightarrow> error + real) \<Rightarrow> ndarray \<Rightarrow> error + (ndarray \<times> real \<times> 'o)" where
  "step_and_cost ext st f w =
     (case f w of
        Inl e \<Rightarrow> Inl e
      | Inr c \<Rightarrow>
          (case adam_apply ext st (autograd ext f w) w of
             (w', st') \<Rightarrow> Inr (w', c, st')))"

text \<open>
  \<open>step\<close> returns the pair of the source and the instance afterwards: the optimizer
  object keeps its moments, so \<open>opt\<close> is the one field a call changes.
\<close>

definition step ::
  "'o ext \<Rightarrow> 'o instructor \<Rightarrow> pyweights \<Rightarrow> noise \<Rightarrow> error + ((ndarray \<times> real) \<times> 'o instructor)" where
  "step ext inst w np =
     (case py_len w of
        Inl e \<Rightarrow> Inl e
      | Inr n \<Rightarrow>
          (case np_array (if n = 0 then NdArray (weights inst) else w) of
             Inl e \<Rightarrow> Inl e
           | Inr w1 \<Rightarrow>
               (case step_and_cost ext (opt inst)
                       (\<lambda>v. cost ext inst (Some (NdArray v)) (y_d inst) np) w1 of
                  Inl e \<Rightarrow> Inl e
                | Inr (w2, c, st') \<Rightarrow> Inr ((w2, c), inst\<lparr>opt := st'\<rparr>))))"

subsection \<open>\<open>calc_hist\<close>\<close>

fun map_err :: "('a \<Rightarrow> error + 'b) \<Rightarrow> 'a list \<Rightarrow> error + 'b list" where
  "map_err f [] = Inr []"
| "map_err f (x # xs) =
     (case f x of
        Inl e \<Rightarrow> Inl e
      | Inr y \<Rightarrow> (case map_err f xs of Inl e \<Rightarrow> Inl e | Inr ys \<Rightarrow> Inr (y # ys)))"

text \<open>
  Modelled from the spec: \<open>pennylane.fourier.coefficients\<close> and
  \<open>_extract_data_and_labels\<close> are PennyLane's and not among the sources. Section 4.3 of
  the spec: a discrete Fourier transform over uniformly sampled evaluations of the
  function across one full period, truncated to the requested frequency band, giving
  real and imaginary coefficient arrays indexed by frequency bin from \<open>-max_freq\<close> to
  \<open>+max_freq\<close>. The function analysed has one input (\<open>n_inputs = 1\<close>), and
  \<open>sample_points\<close> are the \<open>2 * degree + 1\<close> points at which it is evaluated.
\<close>

definition sample_points :: "int \<Rightarrow> real list" where
  "sample_points degree =
     (let k = nat (2 * degree + 1) in map (\<lambda>n. 2 * pi * real n / real k) [0..<k])"

text \<open>
  Modelled from the spec: the coefficient of frequency \<open>k\<close> of the discrete Fourier
  transform of the samples \<open>fs\<close> (the library's transform of the samples, divided by
  their number).
\<close>

definition fourier_coefficient :: "real list \<Rightarrow> int \<Rightarrow> complex" where
  "fourier_coefficient fs k =
     sum_list (map (\<lambda>n. complex_of_real (fs ! n)
                          * cis (- (2 * pi * real_of_int k * real n / real (length fs))))
                   [0..<length fs])
       / complex_of_real (real (length fs))"

text \<open>
  Modelled from the spec: \<open>coefficients(f, 1, degree)\<close>, the coefficients of \<open>f\<close> for the
  frequency bins \<open>-degree..degree\<close>. An error raised by \<open>f\<close> at a sample goes through.
\<close>

definition coefficients :: "(real \<Rightarrow> error + real) \<Rightarrow> int \<Rightarrow> error + complex list" where
  "coefficients f degree =
     (case map_err f (sample_points degree) of
        Inl e \<Rightarrow> Inl e
      | Inr fs \<Rightarrow> Inr (map (fourier_coefficient fs) [- degree..degree]))"

record coeff_data =
  real_part :: "real list list"
  imag_part :: "real list list"

record hist_data = coeff_data +
  comb :: "real list list"

text \<open>
  Modelled from the spec: \<open>_extract_data_and_labels\<close>, the real and the imaginary parts
  of each row of coefficients (the labels it also returns are not used).
\<close>

definition extract_data_and_labels :: "complex list list \<Rightarrow> coeff_data" where
  "extract_data_and_labels coeffs =
     \<lparr>real_part = map (map Re) coeffs, imag_part = map (map Im) coeffs\<rparr>"

text \<open>
  The function handed to \<open>coefficients\<close> is \<open>forward\<close> at one input; its value is
  stored into an array of floats, which takes a single expectation value and refuses an
  array or a matrix with \<open>ValueError\<close>.
\<close>

fun as_scalar :: "qout \<Rightarrow> error + real" where
  "as_scalar (Expval (Single v)) = Inr v"
| "as_scalar r = Inl ValueError"

text \<open>\<open>np.sqrt(a ** 2 + b ** 2)\<close>, entry by entry on two arrays of one shape.\<close>

definition magnitude :: "real list list \<Rightarrow> real list list \<Rightarrow> real list list" where
  "magnitude a b = map (\<lambda>(r, i). map (\<lambda>(x, y). sqrt (x\<^sup>2 + y\<^sup>2)) (zip r i)) (zip a b)"

definition calc_hist ::
  "'o ext \<Rightarrow> 'o instructor \<Rightarrow> pyweights option \<Rightarrow> noise \<Rightarrow> error + (nat \<times> hist_data)" where
  "calc_hist ext inst w np =
     (case coefficients
             (\<lambda>x. case forward ext inst (Single x) w np of
                    Inl e \<Rightarrow> Inl e
                  | Inr r \<Rightarrow> as_scalar r)
             (max_freq inst) of
        Inl e \<Rightarrow> Inl e
      | Inr coeffs \<Rightarrow>
          (let d = extract_data_and_labels [coeffs];
               data_len = length (real_part d ! 0)
           in Inr (data_len,
                   \<lparr>real_part = real_part d, imag_part = imag_part d,
                    comb = magnitude (real_part d) (imag_part d)\<rparr>)))"

section \<open>The training callback of \<open>pages/2-noise-training.py\<close>\<close>


record main_data =
  niq :: int
  nil :: int
  seed :: int


section \<open>Sequences of calls on one instance\<close>

datatype call =
    Forward "real batched" "pyweights option" noise
  | Cost "pyweights option" "real list" noise
  | Step pyweights noise
  | CalcHist "pyweights option" noise

text \<open>
  The instance after a call. \<open>forward\<close>, \<open>cost\<close> and \<open>calc_hist\<close> assign to no field;
  \<open>step\<close> leaves the instance as it was when it raises.
\<close>

fun after_call :: "'o ext \<Rightarrow> 'o instructor \<Rightarrow> call \<Rightarrow> 'o instructor" where
  "after_call ext inst (Step w np) =
     (case step ext inst w np of Inl e \<Rightarrow> inst | Inr (r, inst') \<Rightarrow> inst')"
| "after_call ext inst c = inst"

fun after_calls :: "'o ext \<Rightarrow> 'o instructor \<Rightarrow> call list \<Rightarrow> 'o instructor" where
  "after_calls ext inst [] = inst"
| "after_calls ext inst (c # cs) = after_calls ext (after_call ext inst c) cs"

section \<open>The spec's description of the circuit\<close>

text \<open>
  The operations the spec lists, written without iteration or counters: the data encoding, the
  ansatz layer with its order of weight consumption, the noise channels per qubit, and
  the layers one after the other. The theorems relate \<open>_pqc19\<close> and \<open>_circuit\<close> to them.
\<close>

definition data_encoding_spec :: "nat \<Rightarrow> 'x \<Rightarrow> 'x op list" where
  "data_encoding_spec n x = map (RY x) [0..<n]"

definition ansatz_layer_spec :: "nat \<Rightarrow> real list \<Rightarrow> 'x op list" where
  "ansatz_layer_spec n w =
     concat (map (\<lambda>q. [RX (w ! (2 * q)) q, RZ (w ! (2 * q + 1)) q]) [0..<n])
       @ map (\<lambda>q. CRX (w ! (2 * n + (q - 1))) q ((q + 1) mod n)) [1..<n]"

definition noise_channels_spec :: "nat \<Rightarrow> noise \<Rightarrow> 'x op list" where
  "noise_channels_spec n np =
     concat (map (\<lambda>q. [BitFlip (bf np) q, PhaseFlip (pf np) q, AmplitudeDamping (ad np) q,
                          PhaseDamping (pd np) q, DepolarizingChannel (dp np) q]) [0..<n])"

definition full_circuit_spec :: "nat \<Rightarrow> nat \<Rightarrow> real list list \<Rightarrow> 'x \<Rightarrow> noise \<Rightarrow> 'x op list" where
  "full_circuit_spec nq nl rows x np =
     concat (map (\<lambda>l. data_encoding_spec nq x @ ansatz_layer_spec nq (rows ! l)
                          @ noise_channels_spec nq np) [0..<nl])"

text \<open>The rows of a weight argument, and what makes it valid for a model.\<close>

fun weight_rows :: "pyweights \<Rightarrow> real list list" where
  "weight_rows (PyList rows) = rows"
| "weight_rows (NdArray a) =
     map (\<lambda>l. take (prod_list (tl (shape a))) (drop (l * prod_list (tl (shape a))) (data a)))
         [0..<hd (shape a)]"

fun valid_weights :: "model \<Rightarrow> pyweights \<Rightarrow> bool" where
  "valid_weights m (PyList rows) =
     (int (length rows) = n_layers m
      \<and> list_all (\<lambda>r. int (length r) = n_qubits m * 3 - 1) rows)"
| "valid_weights m (NdArray a) =
     (map int (shape a) = n_params m \<and> length (data a) = prod_list (shape a))"

text \<open>
  The prediction at one input: the simulator's expectation of Pauli-Z on qubit 0 for the
  circuit above.
\<close>

definition predict :: "'o ext \<Rightarrow> model \<Rightarrow> pyweights \<Rightarrow> noise \<Rightarrow> real \<Rightarrow> real" where
  "predict ext m w np v =
     expval_Z ext (dev m)
       (full_circuit_spec (nat (n_qubits m)) (nat (n_layers m)) (weight_rows w) v np) 0"

text \<open>
  What construction establishes and no method call changes: the model is the one built for
  \<open>(n_qubits, n_layers)\<close> with ansatz 19 and an expectation value as output, the stored
  weights are valid for it, and there are as many targets as samples, at least one.
\<close>

definition wf_instructor :: "int \<Rightarrow> int \<Rightarrow> 'o instructor \<Rightarrow> bool" where
  "wf_instructor nq nl inst =
     (1 \<le> nq \<and> 0 \<le> nl
      \<and> Model_init nq nl 19 False = Inr (model inst)
      \<and> max_freq inst = nq * nl
      \<and> valid_weights (model inst) (NdArray (weights inst))
      \<and> length (y_d inst) = length (x_d inst)
      \<and> x_d inst \<noteq> [])"

section \<open>The ansatz and the circuit\<close>

lemma pqc19_rot_upt:
  "w_idx + 2 * (n - k) \<le> length w \<Longrightarrow>
   (pqc19_rot w [k..<n] w_idx :: error + ('x op list \<times> nat)) =
     Inr (concat (map (\<lambda>q. [RX (w ! (w_idx + 2 * (q - k))) q, RZ (w ! (w_idx + 2 * (q - k) + 1)) q]) [k..<n]),
          w_idx + 2 * (n - k))"
proof (induction "n - k" arbitrary: k w_idx)
  case 0
  then show ?case by simp
next
  case (Suc d)
  then have kn: "k < n" and d: "d = n - Suc k" by auto
  have len: "w_idx + 2 + 2 * (n - Suc k) \<le> length w" using Suc.prems kn by auto
  have ih: "(pqc19_rot w [Suc k..<n] (w_idx + 2) :: error + ('x op list \<times> nat)) =
     Inr (concat (map (\<lambda>q. [RX (w ! (w_idx + 2 + 2 * (q - Suc k))) q, RZ (w ! (w_idx + 2 + 2 * (q - Suc k) + 1)) q]) [Suc k..<n]),
          w_idx + 2 + 2 * (n - Suc k))"
    by (rule Suc.hyps(1)[OF d len])
  have eq: "map (\<lambda>q. [RX (w ! (w_idx + 2 + 2 * (q - Suc k))) q, RZ (w ! (w_idx + 2 + 2 * (q - Suc k) + 1)) q]) [Suc k..<n]
      = map (\<lambda>q. [RX (w ! (w_idx + 2 * (q - k))) q, RZ (w ! (w_idx + 2 * (q - k) + 1)) q :: 'x op]) [Suc k..<n]"
  proof (rule map_cong[OF refl])
    fix q assume "q \<in> set [Suc k..<n]"
    then have "w_idx + 2 + 2 * (q - Suc k) = w_idx + 2 * (q - k)" by auto
    then show "[RX (w ! (w_idx + 2 + 2 * (q - Suc k))) q, RZ (w ! (w_idx + 2 + 2 * (q - Suc k) + 1)) q]
      = [RX (w ! (w_idx + 2 * (q - k))) q, RZ (w ! (w_idx + 2 * (q - k) + 1)) q :: 'x op]"
      by (simp only:)
  qed
  have idx: "w_idx < length w" "w_idx + 1 < length w" using Suc.prems kn by auto
  have "[k..<n] = k # [Suc k..<n]" using kn by (simp add: upt_rec)
  then show ?case
    using idx ih[unfolded eq] kn by (simp add: getitem_def Suc_diff_Suc)
qed

lemma pqc19_ent_upt:
  "0 < k \<Longrightarrow> w_idx + (n - k) \<le> length w \<Longrightarrow>
   (pqc19_ent nq w [k..<n] w_idx :: error + ('x op list \<times> nat)) =
     Inr (map (\<lambda>q. CRX (w ! (w_idx + (q - k))) q (nat ((int q + 1) mod nq))) [k..<n],
          w_idx + (n - k))"
proof (induction "n - k" arbitrary: k w_idx)
  case 0
  then show ?case by simp
next
  case (Suc d)
  then have kn: "k < n" and d: "d = n - Suc k" by auto
  have len: "w_idx + 1 + (n - Suc k) \<le> length w" using Suc.prems kn by auto
  have ih: "(pqc19_ent nq w [Suc k..<n] (w_idx + 1) :: error + ('x op list \<times> nat)) =
     Inr (map (\<lambda>q. CRX (w ! (w_idx + 1 + (q - Suc k))) q (nat ((int q + 1) mod nq))) [Suc k..<n],
          w_idx + 1 + (n - Suc k))"
    by (rule Suc.hyps(1)[OF d _ len]) simp
  have eq: "map (\<lambda>q. CRX (w ! (w_idx + 1 + (q - Suc k))) q (nat ((int q + 1) mod nq))) [Suc k..<n]
      = map (\<lambda>q. CRX (w ! (w_idx + (q - k))) q (nat ((int q + 1) mod nq)) :: 'x op) [Suc k..<n]"
  proof (rule map_cong[OF refl])
    fix q assume "q \<in> set [Suc k..<n]"
    then have "w_idx + 1 + (q - Suc k) = w_idx + (q - k)" by auto
    then show "CRX (w ! (w_idx + 1 + (q - Suc k))) q (nat ((int q + 1) mod nq))
      = (CRX (w ! (w_idx + (q - k))) q (nat ((int q + 1) mod nq)) :: 'x op)"
      by (simp only:)
  qed
  have idx: "w_idx < length w" using Suc.prems kn by auto
  have "[k..<n] = k # [Suc k..<n]" using kn by (simp add: upt_rec)
  then show ?case
    using idx Suc.prems(1) ih[unfolded eq] kn by (simp add: getitem_def Suc_diff_Suc)
qed

lemma pqc19_closed:
  assumes "1 \<le> n" and "int (length w) = n * 3 - 1"
  shows "(pqc19 n w :: error + 'x op list) =
     Inr (concat (map (\<lambda>q. [RX (w ! (2 * q)) q, RZ (w ! (2 * q + 1)) q]) [0..<nat n])
          @ map (\<lambda>q. CRX (w ! (2 * nat n + (q - 1))) q ((q + 1) mod nat n)) [1..<nat n])"
proof -
  have len: "length w = 3 * nat n - 1" using assms by auto
  have r: "(pqc19_rot w [0..<nat n] 0 :: error + ('x op list \<times> nat)) =
     Inr (concat (map (\<lambda>q. [RX (w ! (2 * q)) q, RZ (w ! (2 * q + 1)) q]) [0..<nat n]), 2 * nat n)"
  proof -
    have "0 + 2 * (nat n - 0) \<le> length w" using len assms(1) by auto
    from pqc19_rot_upt[OF this] show ?thesis by simp
  qed
  have split: "[0..<nat n] = 0 # [1..<nat n]" using assms(1) by (simp add: upt_rec)
  have e: "(pqc19_ent n w [1..<nat n] (2 * nat n) :: error + ('x op list \<times> nat)) =
     Inr (map (\<lambda>q. CRX (w ! (2 * nat n + (q - 1))) q (nat ((int q + 1) mod n))) [1..<nat n],
          2 * nat n + (nat n - 1))"
  proof -
    have "2 * nat n + (nat n - 1) \<le> length w" using len assms(1) by auto
    from pqc19_ent_upt[OF _ this, of n] show ?thesis by simp
  qed
  have m: "\<And>q. nat ((int q + 1) mod n) = (q + 1) mod nat n"
    using assms(1) by (simp add: nat_mod_distrib nat_add_distrib)
  have e0: "(pqc19_ent n w [0..<nat n] (2 * nat n) :: error + ('x op list \<times> nat)) = pqc19_ent n w [1..<nat n] (2 * nat n)"
    by (subst split) simp
  show ?thesis
    unfolding pqc19_def py_range_def r using e0 e m by simp
qed

lemma pqc19_spec:
  assumes "1 \<le> n" and "int (length w) = n * 3 - 1"
  shows "(pqc19 n w :: error + 'x op list) = Inr (ansatz_layer_spec (nat n) w)"
  unfolding ansatz_layer_spec_def using pqc19_closed[OF assms] by simp

text \<open>
  Claim C3. For \<open>n_qubits \<ge> 1\<close> and a weight row of length \<open>n_qubits*3 - 1\<close>, \<open>_pqc19\<close>
  queues, for the qubits \<open>0..n-1\<close> in order, an \<open>RX\<close> and an \<open>RZ\<close> taking the next two
  weights, and then, for \<open>q = 1..n-1\<close> in order, a \<open>CRX\<close> on wires \<open>q\<close> and
  \<open>(q + 1) mod n\<close> taking one weight each: weights \<open>0..2n-1\<close> go to the rotations, weights
  \<open>2n..3n-2\<close> to the controlled rotations. It raises nothing.
\<close>

theorem pqc19_consumption_order:
  assumes "1 \<le> n" and "int (length w) = n * 3 - 1"
  shows "(pqc19 n w :: error + 'x op list) = Inr (ansatz_layer_spec (nat n) w)"
  using assms by (rule pqc19_spec)

theorem pqc19_consumption_order_witness:
  "(1::int) \<le> 2 \<and> int (length [1, 2, 3, 4, 5 :: real]) = 2 * 3 - 1
   \<and> (pqc19 2 [1, 2, 3, 4, 5] :: error + real op list)
       = Inr [RX 1 0, RZ 2 0, RX 3 1, RZ 4 1, CRX 5 1 0]"
  using pqc19_consumption_order[of 2 "[1, 2, 3, 4, 5]"]
  by (simp add: ansatz_layer_spec_def upt_rec)

lemma iec_eq: "iec n x = data_encoding_spec (nat n) x"
proof -
  have "iec_loop x qs = map (RY x) qs" for qs by (induction qs) auto
  then show ?thesis by (simp add: iec_def data_encoding_spec_def py_range_def)
qed

lemma noise_loop_eq: "noise_loop np (py_range n) = noise_channels_spec (nat n) np"
proof -
  have "(noise_loop np qs :: 'a op list) = concat (map (\<lambda>q. [BitFlip (bf np) q, PhaseFlip (pf np) q, AmplitudeDamping (ad np) q,
                          PhaseDamping (pd np) q, DepolarizingChannel (dp np) q]) qs)" for qs
    by (induction qs) auto
  then show ?thesis by (simp add: noise_channels_spec_def py_range_def)
qed

lemma row_of_valid:
  assumes "valid_weights m w" and "n_params m = n_params_circ19 (n_qubits m) (n_layers m)"
    and "1 \<le> n_qubits m" and "l < nat (n_layers m)"
  shows "row_of w l = Inr (weight_rows w ! l) \<and> int (length (weight_rows w ! l)) = n_qubits m * 3 - 1"
proof (cases w)
  case (PyList rows)
  then have len: "int (length rows) = n_layers m"
    and all: "list_all (\<lambda>r. int (length r) = n_qubits m * 3 - 1) rows"
    using assms(1) by auto
  from len assms(4) have l: "l < length rows" by auto
  then have "int (length (rows ! l)) = n_qubits m * 3 - 1" using all by (simp add: list_all_length)
  then show ?thesis using PyList l by (auto simp: getitem_def)
next
  case (NdArray a)
  then have sh: "map int (shape a) = [n_layers m, n_qubits m * 3 - 1]" and d: "length (data a) = prod_list (shape a)"
    using assms(1,2) by (auto simp: n_params_circ19_def)
  define r where "r = nat (n_layers m)"
  define c where "c = nat (n_qubits m * 3 - 1)"
  from sh have sha: "shape a = [r, c]"
    unfolding r_def c_def by (cases "shape a"; cases "tl (shape a)") (auto)
  have lr: "l < r" using assms(4) r_def by simp
  have "(l + 1) * c \<le> r * c" using lr by (intro mult_right_mono) auto
  then have "l * c + c \<le> length (data a)" using d sha by (simp add: algebra_simps)
  then have "length (take c (drop (l * c) (data a))) = c" by simp
  then show ?thesis using NdArray sha lr assms(3) by (auto simp: c_def)
qed

lemma circuit_layers_closed:
  assumes "valid_weights m w" and "n_params m = n_params_circ19 (n_qubits m) (n_layers m)"
    and "1 \<le> n_qubits m"
  shows "set ls \<subseteq> {..<nat (n_layers m)} \<Longrightarrow>
    (circuit_layers m w x np ls :: error + 'x op list) =
      Inr (concat (map (\<lambda>l. data_encoding_spec (nat (n_qubits m)) x
                         @ ansatz_layer_spec (nat (n_qubits m)) (weight_rows w ! l)
                         @ noise_channels_spec (nat (n_qubits m)) np) ls))"
proof (induction ls)
  case Nil
  then show ?case by simp
next
  case (Cons l ls)
  then have l: "l < nat (n_layers m)" by simp
  note r = row_of_valid[OF assms l]
  have p: "(pqc19 (n_qubits m) (weight_rows w ! l) :: error + 'x op list)
      = Inr (ansatz_layer_spec (nat (n_qubits m)) (weight_rows w ! l))"
    using r by (intro pqc19_spec[OF assms(3)]) simp
  have "pqc m = Pqc19" by (cases "pqc m") simp
  then show ?case using Cons r p by (simp add: iec_eq noise_loop_eq)
qed

lemma circuit_spec:
  assumes "Model_init nq nl 19 sv = Inr m" and "1 \<le> nq" and "valid_weights m w"
  shows "circuit m w (x :: 'x) np =
     Inr (full_circuit_spec (nat nq) (nat nl) (weight_rows w) x np,
          if sv then State else Expval_PauliZ 0)"
proof -
  have m: "n_qubits m = nq" "n_layers m = nl" "state_vector m = sv"
    "n_params m = n_params_circ19 (n_qubits m) (n_layers m)"
    using assms(1) by (auto simp: Model_init_def qml_device_def split: if_splits)
  have ok: "is_list w \<or> shape_matches w (n_params m)"
    using assms(3) by (cases w) auto
  have "valid_weights m w" "1 \<le> n_qubits m" using assms m by auto
  moreover have "set [0..<nat nl] \<subseteq> {..<nat (n_layers m)}" using m by auto
  ultimately have "(circuit_layers m w x np [0..<nat nl] :: error + 'x op list) =
      Inr (full_circuit_spec (nat nq) (nat nl) (weight_rows w) x np)"
    unfolding full_circuit_spec_def
    using circuit_layers_closed[OF _ m(4), of w "[0..<nat nl]" x np] m by simp
  then show ?thesis using ok m by (simp add: circuit_def py_range_def)
qed

text \<open>
  Claim C2. For a model built with ansatz 19 and at least one qubit, valid weights and
  any input \<open>x\<close>, \<open>_circuit\<close> queues for the layers \<open>0..n_layers-1\<close> in order the data
  encoding with the same \<open>x\<close>, the ansatz with weight row \<open>w[l]\<close>, and for each qubit the
  channels bit-flip, phase-flip, amplitude damping, phase damping, depolarizing in this
  order; it then returns the state when \<open>state_vector\<close> is set and the expectation of
  Pauli-Z on qubit 0 otherwise.
\<close>

theorem circuit_structure:
  assumes "Model_init nq nl 19 sv = Inr m" and "1 \<le> nq" and "valid_weights m w"
  shows "circuit m w (x :: 'x) np =
     Inr (full_circuit_spec (nat nq) (nat nl) (weight_rows w) x np,
          if sv then State else Expval_PauliZ 0)"
  using assms by (rule circuit_spec)

theorem circuit_structure_witness:
  "Model_init 2 1 19 False
     = Inr \<lparr>n_qubits = 2, n_layers = 1, state_vector = False, pqc = Pqc19, n_params = [1, 5],
            dev = \<lparr>dev_name = ''default.mixed'', dev_wires = 2\<rparr>\<rparr>
   \<and> (1::int) \<le> 2
   \<and> valid_weights \<lparr>n_qubits = 2, n_layers = 1, state_vector = False, pqc = Pqc19, n_params = [1, 5],
            dev = \<lparr>dev_name = ''default.mixed'', dev_wires = 2\<rparr>\<rparr>
        (NdArray \<lparr>shape = [1, 5], data = [1, 2, 3, 4, 5]\<rparr>)
   \<and> circuit \<lparr>n_qubits = 2, n_layers = 1, state_vector = False, pqc = Pqc19, n_params = [1, 5],
            dev = \<lparr>dev_name = ''default.mixed'', dev_wires = 2\<rparr>\<rparr>
        (NdArray \<lparr>shape = [1, 5], data = [1, 2, 3, 4, 5]\<rparr>) (7::real)
        \<lparr>bf = 0, pf = 0, ad = 0, pd = 0, dp = 0\<rparr>
     = Inr ([RY 7 0, RY 7 1, RX 1 0, RZ 2 0, RX 3 1, RZ 4 1, CRX 5 1 0,
             BitFlip 0 0, PhaseFlip 0 0, AmplitudeDamping 0 0, PhaseDamping 0 0, DepolarizingChannel 0 0,
             BitFlip 0 1, PhaseFlip 0 1, AmplitudeDamping 0 1, PhaseDamping 0 1, DepolarizingChannel 0 1],
            Expval_PauliZ 0)"
proof -
  let ?m = "\<lparr>n_qubits = 2, n_layers = 1, state_vector = False, pqc = Pqc19, n_params = [1, 5],
            dev = \<lparr>dev_name = ''default.mixed'', dev_wires = 2\<rparr>\<rparr>"
  let ?w = "NdArray \<lparr>shape = [1, 5], data = [1, 2, 3, 4, 5]\<rparr>"
  have a: "Model_init 2 1 19 False = Inr ?m"
    by (simp add: Model_init_def qml_device_def n_params_circ19_def)
  have b: "(1::int) \<le> 2" by simp
  have c: "valid_weights ?m ?w" by simp
  show ?thesis
    using a b c circuit_structure[OF a b c, of "7::real" "\<lparr>bf = 0, pf = 0, ad = 0, pd = 0, dp = 0\<rparr>"]
    by (simp add: full_circuit_spec_def data_encoding_spec_def ansatz_layer_spec_def
        noise_channels_spec_def upt_rec)
qed

section \<open>Errors of construction and of circuit evaluation\<close>

lemma getitem_error: "getitem xs i = Inl e \<Longrightarrow> e = IndexError"
  by (auto simp: getitem_def split: if_splits)

lemma pqc19_rot_error:
  "(pqc19_rot w qs i :: error + ('x op list \<times> nat)) = Inl e \<Longrightarrow> e = IndexError"
  by (induction qs arbitrary: i)
    (auto split: sum.splits prod.splits dest: getitem_error)

lemma pqc19_ent_error:
  "(pqc19_ent n w qs i :: error + ('x op list \<times> nat)) = Inl e \<Longrightarrow> e = IndexError"
  by (induction qs arbitrary: i)
    (auto split: sum.splits prod.splits if_splits dest: getitem_error)

lemma pqc19_error: "(pqc19 n w :: error + 'x op list) = Inl e \<Longrightarrow> e = IndexError"
  unfolding pqc19_def
  by (auto split: sum.splits prod.splits dest: pqc19_rot_error pqc19_ent_error)

lemma row_of_error: "row_of w l = Inl e \<Longrightarrow> e = IndexError"
  by (cases w) (auto split: list.splits if_splits dest: getitem_error)

lemma circuit_layers_error:
  "(circuit_layers m w x np ls :: error + 'x op list) = Inl e \<Longrightarrow> e = IndexError"
proof (induction ls)
  case Nil
  then show ?case by simp
next
  case (Cons l ls)
  have p: "pqc m = Pqc19" by (cases "pqc m") simp
  show ?case
    using Cons p
    by (auto split: sum.splits dest: row_of_error pqc19_error)
qed

lemma circuit_assertion_iff:
  "((circuit m w x np :: error + ('x op list \<times> measurement)) = Inl AssertionError)
     = (\<not> is_list w \<and> \<not> shape_matches w (n_params m))"
  unfolding circuit_def
  by (auto split: sum.splits dest: circuit_layers_error)

lemma forward_bad_shape:
  assumes "map int (shape a) \<noteq> n_params (model inst)"
  shows "forward ext inst xs (Some (NdArray a)) np = Inl AssertionError"
  using assms by (simp add: forward_def Model_call_def circuit_def)

lemma cost_bad_shape:
  assumes "map int (shape a) \<noteq> n_params (model inst)"
  shows "cost ext inst (Some (NdArray a)) ys np = Inl AssertionError"
  using forward_bad_shape[OF assms] by (simp add: cost_def)

lemma step_bad_shape:
  assumes "py_len w = Inr (Suc k)" and "np_array w = Inr a"
    and "map int (shape a) \<noteq> n_params (model inst)"
  shows "step ext inst w np = Inl AssertionError"
  using assms cost_bad_shape[OF assms(3)]
  by (simp add: step_def step_and_cost_def)





text \<open>
  Claim C4, as the code has it. \<open>_circuit\<close> raises its assertion exactly when the weights
  are not a Python list and their shape differs from \<open>(n_layers, n_qubits*3 - 1)\<close>.
  So \<open>forward\<close> and \<open>cost\<close> raise it for every array of another shape, and \<open>step\<close>,
  which turns its argument into an array first, raises it for every argument of non-zero
  length whose array has another shape.
\<close>

theorem shape_assertion_for_arrays:
  "((circuit m w x np :: error + ('x op list \<times> measurement)) = Inl AssertionError)
     = (\<not> is_list w \<and> \<not> shape_matches w (n_params m))
   \<and> (map int (shape a) \<noteq> n_params (model inst) \<longrightarrow>
        forward ext inst xs (Some (NdArray a)) np = Inl AssertionError
        \<and> cost ext inst (Some (NdArray a)) ys np = Inl AssertionError
        \<and> (\<forall>w' k. py_len w' = Inr (Suc k) \<and> np_array w' = Inr a \<longrightarrow>
              step ext inst w' np = Inl AssertionError))"
proof (intro conjI impI allI)
  show "((circuit m w x np :: error + ('x op list \<times> measurement)) = Inl AssertionError)
     = (\<not> is_list w \<and> \<not> shape_matches w (n_params m))"
    by (rule circuit_assertion_iff)
next
  assume h: "map int (shape a) \<noteq> n_params (model inst)"
  show "forward ext inst xs (Some (NdArray a)) np = Inl AssertionError"
    by (rule forward_bad_shape[OF h])
  show "cost ext inst (Some (NdArray a)) ys np = Inl AssertionError"
    by (rule cost_bad_shape[OF h])
  fix w' k
  assume "py_len w' = Inr (Suc k) \<and> np_array w' = Inr a"
  then show "step ext inst w' np = Inl AssertionError"
    using step_bad_shape[of w' k a inst ext np] h by simp
qed

theorem shape_assertion_for_arrays_witness:
  "map int (shape \<lparr>shape = [2, 2], data = [0, 0, 0, 0]\<rparr>)
      \<noteq> n_params (model \<lparr>max_freq = 1,
            model = \<lparr>n_qubits = 1, n_layers = 1, state_vector = False, pqc = Pqc19,
                     n_params = [1, 2],
                     dev = \<lparr>dev_name = ''default.mixed'', dev_wires = 1\<rparr>\<rparr>,
            x_d = [0], y_d = [1], weights = \<lparr>shape = [1, 2], data = [0, 0]\<rparr>, opt = ()\<rparr>)
   \<and> py_len (PyList [[0, 0], [0, 0]]) = Inr (Suc 1)
   \<and> np_array (PyList [[0, 0], [0, 0]]) = Inr \<lparr>shape = [2, 2], data = [0, 0, 0, 0]\<rparr>
   \<and> step \<lparr>expval_Z = (\<lambda>d t q. 0), density_matrix = (\<lambda>d t. []), rng_random = (\<lambda>s i. 0),
            autograd = (\<lambda>f v. []), adam_init = (\<lambda>s. ()), adam_apply = (\<lambda>st g v. (v, ()))\<rparr>
        \<lparr>max_freq = 1,
            model = \<lparr>n_qubits = 1, n_layers = 1, state_vector = False, pqc = Pqc19,
                     n_params = [1, 2],
                     dev = \<lparr>dev_name = ''default.mixed'', dev_wires = 1\<rparr>\<rparr>,
            x_d = [0], y_d = [1], weights = \<lparr>shape = [1, 2], data = [0, 0]\<rparr>, opt = ()\<rparr>
        (PyList [[0, 0], [0, 0]]) \<lparr>bf = 0, pf = 0, ad = 0, pd = 0, dp = 0\<rparr>
      = Inl AssertionError"
proof -
  let ?a = "\<lparr>shape = [2, 2], data = [0, 0, 0, 0]\<rparr>"
  let ?inst = "\<lparr>max_freq = 1,
            model = \<lparr>n_qubits = 1, n_layers = 1, state_vector = False, pqc = Pqc19,
                     n_params = [1, 2],
                     dev = \<lparr>dev_name = ''default.mixed'', dev_wires = 1\<rparr>\<rparr>,
            x_d = [0], y_d = [1], weights = \<lparr>shape = [1, 2], data = [0, 0]\<rparr>, opt = ()\<rparr>"
  let ?ext = "\<lparr>expval_Z = (\<lambda>d t q. 0), density_matrix = (\<lambda>d t. []), rng_random = (\<lambda>s i. 0),
            autograd = (\<lambda>f v. []), adam_init = (\<lambda>s. ()), adam_apply = (\<lambda>st g v. (v, ()))\<rparr>"
  let ?np = "\<lparr>bf = 0, pf = 0, ad = 0, pd = 0, dp = 0\<rparr>"
  let ?w = "PyList [[0, 0], [0, 0]]"
  have h1: "map int (shape ?a) \<noteq> n_params (model ?inst)" by simp
  have h2: "py_len ?w = Inr (Suc 1)" by simp
  have h3: "np_array ?w = Inr ?a" by simp
  note t = shape_assertion_for_arrays[where a = "?a" and inst = "?inst" and ext = "?ext"
      and np = "?np", THEN conjunct2, THEN mp, OF h1, THEN conjunct2, THEN conjunct2,
      THEN spec, THEN spec, THEN mp, OF conjI[OF h2 h3]]
  from t have "step ?ext ?inst ?w ?np = Inl AssertionError" .
  then show ?thesis using h1 h2 h3 by (intro conjI)
qed

text \<open>
  The claim as stated fails: with one qubit and one layer the required shape is
  \<open>(1, 2)\<close>; a nested list of shape \<open>(2, 2)\<close> passes \<open>isinstance(w, list)\<close>, and the
  circuit is built from its first row without an error.
\<close>

theorem list_weights_bypass_shape_check_counterexample:
  "circuit \<lparr>n_qubits = 1, n_layers = 1, state_vector = False, pqc = Pqc19,
            n_params = [1, 2],
            dev = \<lparr>dev_name = ''default.mixed'', dev_wires = 1\<rparr>\<rparr>
      (PyList [[0, 0], [0, 0]]) (0::real) \<lparr>bf = 0, pf = 0, ad = 0, pd = 0, dp = 0\<rparr>
     = Inr ([RY 0 0, RX 0 0, RZ 0 0, BitFlip 0 0, PhaseFlip 0 0, AmplitudeDamping 0 0,
             PhaseDamping 0 0, DepolarizingChannel 0 0], Expval_PauliZ 0)"
  by (simp add: circuit_def py_range_def iec_def pqc19_def getitem_def)

section \<open>Construction of the \<open>Instructor\<close>\<close>

lemma sin_poly_bound:
  "\<bar>sin x - (x - x ^ 3 / 6)\<bar> \<le> \<bar>x\<bar> ^ 5 / 120" for x :: real
proof -
  have "{..<5::nat} = {0, 1, 2, 3, 4}" by auto
  then have e1: "(\<Sum>m<5. sin_coeff m * x ^ m) = x - x ^ 3 / 6"
    by (simp add: sin_coeff_def fact_numeral)
  have f5: "(fact 5 :: real) = 120" by (simp add: fact_numeral)
  have e2: "inverse (fact 5) * \<bar>x\<bar> ^ 5 = \<bar>x\<bar> ^ 5 / 120"
    unfolding f5 by (simp add: field_simps)
  have "\<bar>sin x - (\<Sum>m<5. sin_coeff m * x ^ m)\<bar> \<le> inverse (fact 5) * \<bar>x\<bar> ^ 5"
    by (rule Maclaurin_sin_bound)
  then show ?thesis unfolding e1 e2 .
qed

lemma pi_gt_three: "3 < pi"
proof (rule ccontr)
  assume "\<not> 3 < pi"
  then have le: "pi / 6 \<le> 1 / 2" by simp
  have "sin (pi / 6) \<le> sin (1 / 2)"
  proof (cases "pi / 6 = 1 / 2")
    case True show ?thesis unfolding True by simp
  next
    case False
    with le have "pi / 6 < 1 / 2" by simp
    moreover have "(1::real) / 2 \<le> pi / 2" using pi_ge_two by simp
    moreover have "- (pi / 2) \<le> pi / 6" using pi_ge_zero by linarith
    ultimately show ?thesis using sin_monotone_2pi[of "pi / 6" "1 / 2"] by simp
  qed
  then have "1 / 2 \<le> sin (1 / 2 :: real)" by (simp add: sin_30)
  moreover have "sin (1 / 2 :: real) \<le> 1 / 2 - (1 / 2) ^ 3 / 6 + \<bar>1 / 2\<bar> ^ 5 / 120"
    using sin_poly_bound[of "1 / 2"] by linarith
  ultimately show False by (simp add: power_divide)
qed

lemma pi_lt_19_6: "pi < 19 / 6"
proof (rule ccontr)
  assume "\<not> pi < 19 / 6"
  then have le: "19 / 36 \<le> pi / 6" by simp
  have "sin (19 / 36) \<le> sin (pi / 6)"
  proof (cases "pi / 6 = 19 / 36")
    case True show ?thesis unfolding True by simp
  next
    case False
    with le have "19 / 36 < pi / 6" by simp
    moreover have "pi / 6 \<le> pi / 2" using pi_ge_zero by linarith
    moreover have "- (pi / 2) \<le> 19 / 36" using pi_ge_zero by linarith
    ultimately show ?thesis using sin_monotone_2pi[of "19 / 36" "pi / 6"] by simp
  qed
  then have "sin (19 / 36 :: real) \<le> 1 / 2" by (simp add: sin_30)
  moreover have "19 / 36 - (19 / 36) ^ 3 / 6 - \<bar>19 / 36\<bar> ^ 5 / 120 \<le> sin (19 / 36 :: real)"
    using sin_poly_bound[of "19 / 36"] by linarith
  ultimately show False by (simp add: power_divide)
qed

lemma ceiling_six_pi: "\<lceil>6 * pi\<rceil> = 19"
  using pi_gt_three pi_lt_19_6 by (intro ceiling_unique) auto

lemma n_d_value: "nat \<lceil>2 * np_max (map abs [- 1 * pi, 1 * pi]) * np_max [1, 2, 3]\<rceil> = 19"
proof -
  have "np_max (map abs [- 1 * pi, 1 * pi]) = pi" by (simp add: np_max_def)
  moreover have "np_max [1, 2, 3] = 3" by (simp add: np_max_def)
  ultimately show ?thesis using ceiling_six_pi by simp
qed

lemma Instructor_init_eq:
  "Instructor_init ext nq nl sd =
     (if 23 < nq \<or> sd < 0 \<or> nl < 0 \<or> nq * 3 - 1 < 0 then Inl ValueError
      else Inr \<lparr>max_freq = nq * nl,
                model = \<lparr>n_qubits = nq, n_layers = nl, state_vector = False, pqc = Pqc19,
                         n_params = [nl, nq * 3 - 1],
                         dev = \<lparr>dev_name = ''default.mixed'', dev_wires = nq\<rparr>\<rparr>,
                x_d = np_linspace (- pi) pi 19,
                y_d = map (y_fct [1, 2, 3]) (np_linspace (- pi) pi 19),
                weights = \<lparr>shape = [nat nl, nat (nq * 3 - 1)],
                           data = map (\<lambda>u. 2 * pi * (1 - 2 * u))
                                    (map (rng_random ext sd)
                                       [0..<nat nl * nat (nq * 3 - 1)])\<rparr>,
                opt = adam_init ext 0.05\<rparr>)"
  using n_d_value
  by (simp add: Instructor_init_def Model_init_def qml_device_def default_rng_def
      n_params_circ19_def rng_random_size_def Let_def)

lemma Instructor_init_facts:
  assumes "Instructor_init ext nq nl sd = Inr inst"
  shows "1 \<le> nq" "0 \<le> nl" "max_freq inst = nq * nl"
    "model inst = \<lparr>n_qubits = nq, n_layers = nl, state_vector = False, pqc = Pqc19,
                   n_params = [nl, nq * 3 - 1],
                   dev = \<lparr>dev_name = ''default.mixed'', dev_wires = nq\<rparr>\<rparr>"
    "x_d inst = np_linspace (- pi) pi 19"
    "y_d inst = map (y_fct [1, 2, 3]) (np_linspace (- pi) pi 19)"
    "shape (weights inst) = [nat nl, nat (nq * 3 - 1)]"
    "length (data (weights inst)) = nat nl * nat (nq * 3 - 1)"
    "nq \<le> 23" "0 \<le> sd"
  using assms unfolding Instructor_init_eq
  by (auto split: if_splits)

text \<open>
  Claim C7. Whatever the seed, a constructed \<open>Instructor\<close> has as training domain the
  uniform grid of \<open>n_samples = ceil(2 * max|domain| * max(frequencies)) = ceil(6 pi) = 19\<close>
  points from \<open>-pi\<close> to \<open>pi\<close>, and as target at each sample \<open>x\<close> the value
  \<open>(1 / norm [1, 2, 3]) * (cos x + cos 2x + cos 3x)\<close>, the norm being \<open>sqrt 14\<close>.
\<close>

theorem Instructor_training_domain:
  assumes "Instructor_init ext nq nl sd = Inr inst"
  shows "nat \<lceil>2 * np_max (map abs [- pi, pi]) * np_max [1, 2, 3]\<rceil> = 19
    \<and> \<lceil>6 * pi\<rceil> = 19
    \<and> x_d inst = map (\<lambda>i. - pi + real i * (2 * pi / 18)) [0..<19]
    \<and> hd (x_d inst) = - pi \<and> last (x_d inst) = pi
    \<and> y_d inst = map (\<lambda>x. 1 / sqrt 14 * (cos (1 * x) + cos (2 * x) + cos (3 * x))) (x_d inst)"
proof -
  note f = Instructor_init_facts[OF assms]
  have x: "x_d inst = map (\<lambda>i. - pi + real i * (2 * pi / 18)) [0..<19]"
    unfolding f(5) np_linspace_def by simp
  have "[0..<19] = 0 # [1..<19]" by (simp add: upt_rec)
  then have h: "hd (x_d inst) = - pi" unfolding x by simp
  have "[0..<19] = [0..<18] @ [18]" by (simp add: upt_rec)
  then have l: "last (x_d inst) = pi" unfolding x by simp
  have "y_fct [1, 2, 3] = (\<lambda>x. 1 / sqrt 14 * (cos (1 * x) + cos (2 * x) + cos (3 * x)))"
    by (rule ext) (simp add: y_fct_def np_norm_def)
  then have y: "y_d inst = map (\<lambda>x. 1 / sqrt 14 * (cos (1 * x) + cos (2 * x) + cos (3 * x))) (x_d inst)"
    unfolding f(5,6) by simp
  show ?thesis using n_d_value ceiling_six_pi x h l y by simp
qed

theorem Instructor_training_domain_witness:
  "\<exists>inst. Instructor_init
       \<lparr>expval_Z = (\<lambda>d t q. 0), density_matrix = (\<lambda>d t. []), rng_random = (\<lambda>s i. 0),
        autograd = (\<lambda>f v. []), adam_init = (\<lambda>s. ()), adam_apply = (\<lambda>st g v. (v, ()))\<rparr>
       2 4 100 = Inr inst
     \<and> length (x_d inst) = 19 \<and> hd (x_d inst) = - pi \<and> last (x_d inst) = pi
     \<and> y_d inst ! 9 = 3 / sqrt 14"
proof -
  let ?ext = "\<lparr>expval_Z = (\<lambda>d t q. 0), density_matrix = (\<lambda>d t. []), rng_random = (\<lambda>s i. 0),
        autograd = (\<lambda>f v. []), adam_init = (\<lambda>s. ()), adam_apply = (\<lambda>st g v. (v, ()))\<rparr>"
  obtain inst where i: "Instructor_init ?ext 2 4 100 = Inr inst"
    unfolding Instructor_init_eq by simp
  note t = Instructor_training_domain[OF i]
  have x: "x_d inst = map (\<lambda>i. - pi + real i * (2 * pi / 18)) [0..<19]"
    using t by (elim conjE)
  have h: "hd (x_d inst) = - pi"
    using t by (elim conjE)
  have l: "last (x_d inst) = pi"
    using t by (elim conjE)
  have y: "y_d inst = map (\<lambda>x. 1 / sqrt 14 * (cos (1 * x) + cos (2 * x) + cos (3 * x))) (x_d inst)"
    using t by (elim conjE)
  have n: "length (x_d inst) = 19" unfolding x by simp
  have x9: "x_d inst ! 9 = 0" unfolding x by simp
  have "y_d inst ! 9 = 1 / sqrt 14 * (cos (1 * (x_d inst ! 9)) + cos (2 * (x_d inst ! 9)) + cos (3 * (x_d inst ! 9)))"
    using n by (subst y) simp
  then have y9: "y_d inst ! 9 = 3 / sqrt 14" unfolding x9 by simp
  show ?thesis using i n h l y9 by (intro exI[of _ inst] conjI)
qed

section \<open>\<open>forward\<close> and \<open>cost\<close> on valid weights\<close>

lemma map_op_full_circuit:
  "map (map_op f) (full_circuit_spec nq nl rows x np) = full_circuit_spec nq nl rows (f x) np"
  by (simp add: full_circuit_spec_def data_encoding_spec_def ansatz_layer_spec_def
      noise_channels_spec_def map_concat comp_def)

lemma tape_batch_None:
  "(\<And>xs q. RY (Batch xs) q \<notin> set ops) \<Longrightarrow> tape_batch ops = None"
  by (induction ops rule: tape_batch.induct) auto

lemma tape_batch_Single: "tape_batch (full_circuit_spec nq nl rows (Single v) np) = None"
  by (rule tape_batch_None)
    (auto simp: full_circuit_spec_def data_encoding_spec_def ansatz_layer_spec_def
      noise_channels_spec_def)

lemma tape_batch_Batch:
  assumes "0 < nq" and "0 < nl"
  shows "tape_batch (full_circuit_spec nq nl rows (Batch xs) np) = Some (length xs)"
proof -
  have "[0..<nl] = 0 # [1..<nl]" "[0..<nq] = 0 # [1..<nq]"
    using assms by (simp_all add: upt_rec)
  then show ?thesis
    by (simp add: full_circuit_spec_def data_encoding_spec_def)
qed

lemma run_batched_Single:
  "run_batched f (full_circuit_spec nq nl rows (Single v) np)
     = Inr (Single (f (full_circuit_spec nq nl rows v np)))"
  by (simp add: run_batched_def tape_batch_Single map_op_full_circuit)

lemma run_batched_Batch:
  assumes "0 < nq" and "0 < nl" and "xs \<noteq> []"
  shows "run_batched f (full_circuit_spec nq nl rows (Batch xs) np)
     = Inr (Batch (map (\<lambda>v. f (full_circuit_spec nq nl rows v np)) xs))"
proof -
  have "map (\<lambda>i. f (full_circuit_spec nq nl rows (xs ! i) np)) [0..<length xs]
      = map (\<lambda>v. f (full_circuit_spec nq nl rows v np)) xs"
    by (rule nth_equalityI) auto
  then show ?thesis
    using assms(3)
    by (simp add: run_batched_def tape_batch_Batch[OF assms(1,2)] map_op_full_circuit)
qed

lemma run_batched_Batch_empty:
  assumes "0 < nq" and "0 < nl"
  shows "run_batched f (full_circuit_spec nq nl rows (Batch []) np) = Inl BroadcastError"
  by (simp add: run_batched_def tape_batch_Batch[OF assms])

lemma run_batched_no_layers:
  "run_batched f (full_circuit_spec nq 0 rows x np) = Inr (Single (f []))"
  by (simp add: run_batched_def full_circuit_spec_def)

lemma Model_call_valid:
  assumes "Model_init nq nl 19 False = Inr m" and "1 \<le> nq" and "valid_weights m w"
  shows "Model_call ext m w x np =
     (case run_batched (\<lambda>t. expval_Z ext (dev m) t 0)
             (full_circuit_spec (nat nq) (nat nl) (weight_rows w) x np) of
        Inl e \<Rightarrow> Inl e
      | Inr r \<Rightarrow> Inr (Expval r))"
  using circuit_spec[OF assms, of x np]
  by (simp add: Model_call_def execute_def)

lemma Model_init_fields:
  assumes "Model_init nq nl 19 sv = Inr m"
  shows "n_qubits m = nq" "n_layers m = nl" "state_vector m = sv"
    "n_params m = [nl, nq * 3 - 1]"
  using assms by (auto simp: Model_init_def qml_device_def n_params_circ19_def split: if_splits)

lemma Model_call_Single:
  assumes "Model_init nq nl 19 False = Inr m" and "1 \<le> nq" and "valid_weights m w"
  shows "Model_call ext m w (Single v) np = Inr (Expval (Single (predict ext m w np v)))"
  using Model_init_fields[OF assms(1)]
  by (simp add: Model_call_valid[OF assms] run_batched_Single predict_def)

lemma Model_call_Batch:
  assumes "Model_init nq nl 19 False = Inr m" and "1 \<le> nq" and "valid_weights m w"
    and "1 \<le> nl" and "xs \<noteq> []"
  shows "Model_call ext m w (Batch xs) np = Inr (Expval (Batch (map (predict ext m w np) xs)))"
proof -
  have pos: "0 < nat nq" "0 < nat nl" using assms(2,4) by auto
  have p: "predict ext m w np
      = (\<lambda>v. expval_Z ext (dev m)
               (full_circuit_spec (nat nq) (nat nl) (weight_rows w) v np) 0)"
    using Model_init_fields[OF assms(1)] by (intro ext) (simp add: predict_def)
  show ?thesis
    unfolding Model_call_valid[OF assms(1-3)] p
    by (simp add: run_batched_Batch[OF pos assms(5)])
qed

lemma Model_call_Batch_empty:
  assumes "Model_init nq nl 19 False = Inr m" and "1 \<le> nq" and "valid_weights m w"
    and "1 \<le> nl"
  shows "Model_call ext m w (Batch []) np = Inl BroadcastError"
proof -
  have pos: "0 < nat nq" "0 < nat nl" using assms(2,4) by auto
  show ?thesis
    unfolding Model_call_valid[OF assms(1-3)]
    by (simp add: run_batched_Batch_empty[OF pos])
qed

lemma Model_call_Batch_no_layers:
  assumes "Model_init nq 0 19 False = Inr m" and "1 \<le> nq" and "valid_weights m w"
  shows "Model_call ext m w (Batch xs) np = Inr (Expval (Single (expval_Z ext (dev m) [] 0)))"
  by (simp add: Model_call_valid[OF assms] run_batched_no_layers)

section \<open>What a call leaves unchanged\<close>

lemma step_frame:
  "step ext inst w np = Inr (r, inst') \<Longrightarrow> inst' = inst\<lparr>opt := opt inst'\<rparr>"
  by (auto simp: step_def split: sum.splits prod.splits)

lemma after_call_frame: "after_call ext inst c = inst\<lparr>opt := opt (after_call ext inst c)\<rparr>"
proof (cases c)
  case (Step w np)
  then show ?thesis
    by (cases "step ext inst w np") (auto dest: step_frame)
qed simp_all

lemma after_calls_frame:
  "after_calls ext inst cs = inst\<lparr>opt := opt (after_calls ext inst cs)\<rparr>"
proof (induction cs arbitrary: inst)
  case Nil
  then show ?case by simp
next
  case (Cons c cs)
  let ?i = "after_call ext inst c"
  have "after_calls ext ?i cs = ?i\<lparr>opt := opt (after_calls ext ?i cs)\<rparr>"
    by (rule Cons.IH)
  also have "\<dots> = (inst\<lparr>opt := opt ?i\<rparr>)\<lparr>opt := opt (after_calls ext ?i cs)\<rparr>"
    using after_call_frame[of ext inst c] by simp
  finally show ?case by simp
qed

lemma forward_opt: "forward ext (inst\<lparr>opt := st\<rparr>) x ws np = forward ext inst x ws np"
  by (cases ws) (simp_all add: forward_def)

lemma cost_opt: "cost ext (inst\<lparr>opt := st\<rparr>) ws ys np = cost ext inst ws ys np"
  by (simp add: cost_def forward_opt)

lemma calc_hist_opt: "calc_hist ext (inst\<lparr>opt := st\<rparr>) ws np = calc_hist ext inst ws np"
  by (simp add: calc_hist_def forward_opt)

lemma wf_instructor_init:
  assumes "Instructor_init ext nq nl sd = Inr inst"
  shows "wf_instructor nq nl inst"
proof -
  note f = Instructor_init_facts[OF assms]
  have "length (data (weights inst)) = prod_list (shape (weights inst))"
    using f(7,8) by simp
  moreover have "map int (shape (weights inst)) = n_params (model inst)"
    using f(1,2,4,7) by simp
  moreover have "Model_init nq nl 19 False = Inr (model inst)"
    using f(4,9) by (simp add: Model_init_def qml_device_def n_params_circ19_def)
  ultimately show ?thesis using f(1,2,3,5,6) by (simp add: wf_instructor_def np_linspace_def)
qed

lemma wf_instructor_opt: "wf_instructor nq nl (inst\<lparr>opt := st\<rparr>) = wf_instructor nq nl inst"
  by (simp add: wf_instructor_def)

lemma wf_instructor_after_calls:
  "wf_instructor nq nl (after_calls ext inst cs) = wf_instructor nq nl inst"
  by (subst after_calls_frame) (rule wf_instructor_opt)

section \<open>\<open>forward\<close> on a constructed instance\<close>

lemma forward_Single_wf:
  assumes "wf_instructor nq nl inst"
    and "valid_weights (model inst) (case ws of Some w' \<Rightarrow> w' | None \<Rightarrow> NdArray (weights inst))"
  shows "forward ext inst (Single v) ws np =
     Inr (Expval (Single (predict ext (model inst)
            (case ws of Some w' \<Rightarrow> w' | None \<Rightarrow> NdArray (weights inst)) np v)))"
  using assms Model_call_Single[of nq nl "model inst" _ ext v np]
  by (simp add: forward_def wf_instructor_def)

lemma forward_Batch_wf:
  assumes "wf_instructor nq nl inst" and "1 \<le> nl"
    and "valid_weights (model inst) (case ws of Some w' \<Rightarrow> w' | None \<Rightarrow> NdArray (weights inst))"
    and "xs \<noteq> []"
  shows "forward ext inst (Batch xs) ws np =
     Inr (Expval (Batch (map (predict ext (model inst)
            (case ws of Some w' \<Rightarrow> w' | None \<Rightarrow> NdArray (weights inst)) np) xs)))"
  using assms Model_call_Batch[where nq = nq and nl = nl and m = "model inst" and ext = ext
      and xs = xs and np = np]
  by (simp add: forward_def wf_instructor_def)

lemma forward_Batch_no_layers_wf:
  assumes "wf_instructor nq 0 inst"
    and "valid_weights (model inst) (case ws of Some w' \<Rightarrow> w' | None \<Rightarrow> NdArray (weights inst))"
  shows "forward ext inst (Batch xs) ws np =
     Inr (Expval (Single (expval_Z ext (dev (model inst)) [] 0)))"
  using assms Model_call_Batch_no_layers[of nq "model inst" _ ext xs np]
  by (simp add: forward_def wf_instructor_def)

lemma after_calls_append:
  "after_calls ext inst (cs @ cs') = after_calls ext (after_calls ext inst cs) cs'"
  by (induction cs arbitrary: inst) auto

lemma forward_after_calls:
  "forward ext (after_calls ext inst cs) x ws np = forward ext inst x ws np"
  by (subst after_calls_frame) (rule forward_opt)

text \<open>
  Claim C9, as the code has it. \<open>forward\<close> changes no field of the instance: a call to
  it anywhere in a sequence of calls can be left out without changing the instance the
  sequence ends with. Its result is a function of its arguments alone: whatever calls
  were made on the instance before, two calls with the same weights, input and noise
  return the same value, and of the instance it reads the model and the stored weights
  only. On a constructed instance with at least one layer, valid
  weights and a batch of at least one input, the result holds one expectation value per
  input, in the order of the inputs, each the value \<open>forward\<close> gives for that input
  alone.
\<close>

theorem forward_pure:
  "after_calls ext inst (cs @ Forward x ws np # cs') = after_calls ext inst (cs @ cs')
   \<and> forward ext (after_calls ext inst cs) x ws np
       = forward ext (after_calls ext inst cs') x ws np
   \<and> (model inst' = model inst \<and> weights inst' = weights inst \<longrightarrow>
        forward ext inst' x ws np = forward ext inst x ws np)
   \<and> (Instructor_init ext nq nl sd = Inr inst \<and> 1 \<le> nl \<and> xs \<noteq> []
        \<and> valid_weights (model inst)
             (case ws of Some w' \<Rightarrow> w' | None \<Rightarrow> NdArray (weights inst)) \<longrightarrow>
        (\<exists>ys. forward ext inst (Batch xs) ws np = Inr (Expval (Batch ys))
           \<and> length ys = length xs
           \<and> map (\<lambda>v. forward ext inst (Single v) ws np) xs
               = map (\<lambda>y. Inr (Expval (Single y))) ys))"
proof (intro conjI impI)
  show "after_calls ext inst (cs @ Forward x ws np # cs') = after_calls ext inst (cs @ cs')"
    by (simp add: after_calls_append)
next
  show "forward ext (after_calls ext inst cs) x ws np
      = forward ext (after_calls ext inst cs') x ws np"
    by (simp add: forward_after_calls)
next
  assume "model inst' = model inst \<and> weights inst' = weights inst"
  then show "forward ext inst' x ws np = forward ext inst x ws np"
    by (cases ws) (simp_all add: forward_def)
next
  let ?w = "case ws of Some w' \<Rightarrow> w' | None \<Rightarrow> NdArray (weights inst)"
  assume h: "Instructor_init ext nq nl sd = Inr inst \<and> 1 \<le> nl \<and> xs \<noteq> []
        \<and> valid_weights (model inst) ?w"
  then have i: "Instructor_init ext nq nl sd = Inr inst" and l: "1 \<le> nl"
    and v: "valid_weights (model inst) ?w" and ne: "xs \<noteq> []"
    by simp_all
  note wf = wf_instructor_init[OF i]
  have c: "forward ext inst (Batch xs) ws np
      = Inr (Expval (Batch (map (predict ext (model inst) ?w np) xs)))"
    by (rule forward_Batch_wf[OF wf l v ne])
  have d: "map (\<lambda>v. forward ext inst (Single v) ws np) xs
      = map (\<lambda>y. Inr (Expval (Single y))) (map (predict ext (model inst) ?w np) xs)"
    by (simp add: forward_Single_wf[OF wf v])
  show "\<exists>ys. forward ext inst (Batch xs) ws np = Inr (Expval (Batch ys))
           \<and> length ys = length xs
           \<and> map (\<lambda>v. forward ext inst (Single v) ws np) xs
               = map (\<lambda>y. Inr (Expval (Single y))) ys"
    using c d by (intro exI[of _ "map (predict ext (model inst) ?w np) xs"]) simp
qed

theorem forward_pure_witness:
  "\<exists>inst. Instructor_init
       \<lparr>expval_Z = (\<lambda>d t q. 1), density_matrix = (\<lambda>d t. []), rng_random = (\<lambda>s i. 0),
        autograd = (\<lambda>f v. []), adam_init = (\<lambda>s. ()), adam_apply = (\<lambda>st g v. (v, ()))\<rparr>
       2 4 100 = Inr inst
     \<and> (1::int) \<le> 4 \<and> [0, 1, 2 :: real] \<noteq> []
     \<and> valid_weights (model inst) (NdArray (weights inst))
     \<and> forward
         \<lparr>expval_Z = (\<lambda>d t q. 1), density_matrix = (\<lambda>d t. []), rng_random = (\<lambda>s i. 0),
        autograd = (\<lambda>f v. []), adam_init = (\<lambda>s. ()), adam_apply = (\<lambda>st g v. (v, ()))\<rparr>
         inst (Batch [0, 1, 2]) None \<lparr>bf = 0, pf = 0, ad = 0, pd = 0, dp = 0\<rparr>
       = Inr (Expval (Batch [1, 1, 1]))"
proof -
  let ?ext = "\<lparr>expval_Z = (\<lambda>d t q. 1), density_matrix = (\<lambda>d t. []), rng_random = (\<lambda>s i. 0),
        autograd = (\<lambda>f v. []), adam_init = (\<lambda>s. ()), adam_apply = (\<lambda>st g v. (v, ()))\<rparr>"
  let ?np = "\<lparr>bf = 0, pf = 0, ad = 0, pd = 0, dp = 0\<rparr>"
  obtain inst where i: "Instructor_init ?ext 2 4 100 = Inr inst"
    unfolding Instructor_init_eq by simp
  have l: "(1::int) \<le> 4" by simp
  have ne: "[0, 1, 2 :: real] \<noteq> []" by simp
  have v: "valid_weights (model inst) (case None of Some w' \<Rightarrow> w' | None \<Rightarrow> NdArray (weights inst))"
    using wf_instructor_init[OF i] by (simp add: wf_instructor_def)
  note t = forward_pure[where ext = ?ext and inst = inst and ws = None and np = ?np
      and nq = 2 and nl = 4 and sd = 100 and xs = "[0, 1, 2]",
      THEN conjunct2, THEN conjunct2, THEN conjunct2, THEN mp,
      OF conjI[OF i conjI[OF l conjI[OF ne v]]]]
  from t obtain ys where y: "forward ?ext inst (Batch [0, 1, 2]) None ?np = Inr (Expval (Batch ys))"
    and n: "length ys = length [0, 1, 2 :: real]"
    and e: "map (\<lambda>v. forward ?ext inst (Single v) None ?np) [0, 1, 2]
               = map (\<lambda>y. Inr (Expval (Single y))) ys"
    by blast
  have s: "forward ?ext inst (Single u) None ?np = Inr (Expval (Single 1))" for u
    using forward_Single_wf[OF wf_instructor_init[OF i] v, of ?ext u ?np]
    by (simp add: predict_def)
  from n obtain a b c where ys: "ys = [a, b, c]"
    by (cases ys; cases "tl ys"; cases "tl (tl ys)") auto
  from e have "ys = [1, 1, 1]" unfolding ys s by simp
  with y i l v show ?thesis by (intro exI[of _ inst]) simp
qed

text \<open>
  The claim as stated fails. An \<open>Instructor\<close> with one qubit and no layer is
  constructed; its circuit holds no gate, so a batch of three inputs is not broadcast
  and \<open>forward\<close> returns one expectation value, not three. And with one layer,
  \<open>forward\<close> on a batch without entries raises instead of returning.
\<close>

theorem forward_no_layers_counterexample:
  "(case Instructor_init
           \<lparr>expval_Z = (\<lambda>d t q. 1), density_matrix = (\<lambda>d t. []), rng_random = (\<lambda>s i. 0),
        autograd = (\<lambda>f v. []), adam_init = (\<lambda>s. ()), adam_apply = (\<lambda>st g v. (v, ()))\<rparr>
           1 0 100 of
      Inl e \<Rightarrow> Inl e
    | Inr inst \<Rightarrow>
        forward
          \<lparr>expval_Z = (\<lambda>d t q. 1), density_matrix = (\<lambda>d t. []), rng_random = (\<lambda>s i. 0),
        autograd = (\<lambda>f v. []), adam_init = (\<lambda>s. ()), adam_apply = (\<lambda>st g v. (v, ()))\<rparr>
          inst (Batch [0, 1, 2]) None \<lparr>bf = 0, pf = 0, ad = 0, pd = 0, dp = 0\<rparr>)
     = Inr (Expval (Single 1))
   \<and> (case Instructor_init
           \<lparr>expval_Z = (\<lambda>d t q. 1), density_matrix = (\<lambda>d t. []), rng_random = (\<lambda>s i. 0),
        autograd = (\<lambda>f v. []), adam_init = (\<lambda>s. ()), adam_apply = (\<lambda>st g v. (v, ()))\<rparr>
           1 1 100 of
      Inl e \<Rightarrow> Inl e
    | Inr inst \<Rightarrow>
        forward
          \<lparr>expval_Z = (\<lambda>d t q. 1), density_matrix = (\<lambda>d t. []), rng_random = (\<lambda>s i. 0),
        autograd = (\<lambda>f v. []), adam_init = (\<lambda>s. ()), adam_apply = (\<lambda>st g v. (v, ()))\<rparr>
          inst (Batch []) None \<lparr>bf = 0, pf = 0, ad = 0, pd = 0, dp = 0\<rparr>)
     = Inl BroadcastError"
proof -
  let ?ext = "\<lparr>expval_Z = (\<lambda>d t q. 1), density_matrix = (\<lambda>d t. []), rng_random = (\<lambda>s i. 0),
        autograd = (\<lambda>f v. []), adam_init = (\<lambda>s. ()), adam_apply = (\<lambda>st g v. (v, ()))\<rparr>"
  let ?np = "\<lparr>bf = 0, pf = 0, ad = 0, pd = 0, dp = 0\<rparr>"
  obtain inst where i: "Instructor_init ?ext 1 0 100 = Inr inst"
    unfolding Instructor_init_eq by simp
  note wf = wf_instructor_init[OF i]
  have v: "valid_weights (model inst) (case None of Some w' \<Rightarrow> w' | None \<Rightarrow> NdArray (weights inst))"
    using wf by (simp add: wf_instructor_def)
  have a: "forward ?ext inst (Batch [0, 1, 2]) None ?np = Inr (Expval (Single 1))"
    using forward_Batch_no_layers_wf[OF wf v, of ?ext "[0, 1, 2]" ?np] by simp
  obtain inst' where i': "Instructor_init ?ext 1 1 100 = Inr inst'"
    unfolding Instructor_init_eq by simp
  note wf' = wf_instructor_init[OF i']
  have v': "valid_weights (model inst') (NdArray (weights inst'))"
    using wf' by (simp add: wf_instructor_def)
  have m': "Model_init 1 1 19 False = Inr (model inst')"
    using wf' by (simp add: wf_instructor_def)
  have b: "forward ?ext inst' (Batch []) None ?np = Inl BroadcastError"
    using Model_call_Batch_empty[OF m' _ v', of ?ext ?np] by (simp add: forward_def)
  show ?thesis unfolding i i' using a b by simp
qed

text \<open>
  Claim C10. Whatever sequence of \<open>forward\<close>, \<open>cost\<close>, \<open>step\<close> and \<open>calc_hist\<close> calls
  is made on an instance, its fields \<open>weights\<close>, \<open>x_d\<close> and \<open>y_d\<close> stay as they were, and
  a \<open>step\<close> with an empty weight argument made afterwards hands the optimizer the
  weights stored at the start, with the cost over the same domain and targets.
\<close>

theorem stored_fields_unchanged:
  "weights (after_calls ext inst cs) = weights inst
   \<and> x_d (after_calls ext inst cs) = x_d inst
   \<and> y_d (after_calls ext inst cs) = y_d inst
   \<and> step ext (after_calls ext inst cs) (PyList []) np =
       (case step_and_cost ext (opt (after_calls ext inst cs))
               (\<lambda>v. cost ext inst (Some (NdArray v)) (y_d inst) np) (weights inst) of
          Inl e \<Rightarrow> Inl e
        | Inr (w2, c, st') \<Rightarrow> Inr ((w2, c), inst\<lparr>opt := st'\<rparr>))"
proof -
  let ?i = "after_calls ext inst cs"
  have f: "?i = inst\<lparr>opt := opt ?i\<rparr>" by (rule after_calls_frame)
  have w: "weights ?i = weights inst" by (subst f) simp
  have x: "x_d ?i = x_d inst" by (subst f) simp
  have y: "y_d ?i = y_d inst" by (subst f) simp
  have c: "cost ext ?i ws ys np = cost ext inst ws ys np" for ws ys
    by (subst f) (rule cost_opt)
  have u: "?i\<lparr>opt := st\<rparr> = inst\<lparr>opt := st\<rparr>" for st
    by (subst f) simp
  have "step ext ?i (PyList []) np =
       (case step_and_cost ext (opt ?i)
               (\<lambda>v. cost ext inst (Some (NdArray v)) (y_d inst) np) (weights inst) of
          Inl e \<Rightarrow> Inl e
        | Inr (w2, c, st') \<Rightarrow> Inr ((w2, c), inst\<lparr>opt := st'\<rparr>))"
    by (simp add: step_def w y c u split: sum.splits prod.splits)
  then show ?thesis using w x y by simp
qed

theorem stored_fields_unchanged_witness:
  "weights (after_calls
       \<lparr>expval_Z = (\<lambda>d t q. 0), density_matrix = (\<lambda>d t. []), rng_random = (\<lambda>s i. 0),
        autograd = (\<lambda>f v. [7, 7]), adam_init = (\<lambda>s. (0::nat)),
        adam_apply = (\<lambda>st g v. (v\<lparr>data := g\<rparr>, Suc st))\<rparr>
       \<lparr>max_freq = 1,
        model = \<lparr>n_qubits = 1, n_layers = 1, state_vector = False, pqc = Pqc19,
                 n_params = [1, 2],
                 dev = \<lparr>dev_name = ''default.mixed'', dev_wires = 1\<rparr>\<rparr>,
        x_d = [0], y_d = [1], weights = \<lparr>shape = [1, 2], data = [0, 0]\<rparr>, opt = (0::nat)\<rparr>
       [Step (PyList []) \<lparr>bf = 0, pf = 0, ad = 0, pd = 0, dp = 0\<rparr>,
        Forward (Single 0) None \<lparr>bf = 0, pf = 0, ad = 0, pd = 0, dp = 0\<rparr>])
     = \<lparr>shape = [1, 2], data = [0, 0]\<rparr>
   \<and> step
       \<lparr>expval_Z = (\<lambda>d t q. 0), density_matrix = (\<lambda>d t. []), rng_random = (\<lambda>s i. 0),
        autograd = (\<lambda>f v. [7, 7]), adam_init = (\<lambda>s. (0::nat)),
        adam_apply = (\<lambda>st g v. (v\<lparr>data := g\<rparr>, Suc st))\<rparr>
       \<lparr>max_freq = 1,
        model = \<lparr>n_qubits = 1, n_layers = 1, state_vector = False, pqc = Pqc19,
                 n_params = [1, 2],
                 dev = \<lparr>dev_name = ''default.mixed'', dev_wires = 1\<rparr>\<rparr>,
        x_d = [0], y_d = [1], weights = \<lparr>shape = [1, 2], data = [0, 0]\<rparr>, opt = (0::nat)\<rparr>
       (PyList []) \<lparr>bf = 0, pf = 0, ad = 0, pd = 0, dp = 0\<rparr>
     = Inr ((\<lparr>shape = [1, 2], data = [7, 7]\<rparr>, 1),
        \<lparr>max_freq = 1,
         model = \<lparr>n_qubits = 1, n_layers = 1, state_vector = False, pqc = Pqc19,
                  n_params = [1, 2],
                  dev = \<lparr>dev_name = ''default.mixed'', dev_wires = 1\<rparr>\<rparr>,
         x_d = [0], y_d = [1], weights = \<lparr>shape = [1, 2], data = [0, 0]\<rparr>, opt = Suc 0\<rparr>)"
proof -
  let ?ext = "\<lparr>expval_Z = (\<lambda>d t q. 0), density_matrix = (\<lambda>d t. []), rng_random = (\<lambda>s i. 0),
        autograd = (\<lambda>f v. [7, 7]), adam_init = (\<lambda>s. (0::nat)),
        adam_apply = (\<lambda>st g v. (v\<lparr>data := g\<rparr>, Suc st))\<rparr>"
  let ?np = "\<lparr>bf = 0, pf = 0, ad = 0, pd = 0, dp = 0\<rparr>"
  let ?inst = "\<lparr>max_freq = 1,
        model = \<lparr>n_qubits = 1, n_layers = 1, state_vector = False, pqc = Pqc19,
                 n_params = [1, 2],
                 dev = \<lparr>dev_name = ''default.mixed'', dev_wires = 1\<rparr>\<rparr>,
        x_d = [0], y_d = [1], weights = \<lparr>shape = [1, 2], data = [0, 0]\<rparr>, opt = (0::nat)\<rparr>"
  have c: "cost ?ext ?inst (Some (NdArray \<lparr>shape = [1, 2], data = [0, 0]\<rparr>)) [1] ?np = Inr 1"
    by (simp add: cost_def forward_def Model_call_def circuit_def py_range_def iec_def
        pqc19_def getitem_def execute_def run_batched_def np_mean_def)
  have "weights (after_calls ?ext ?inst [Step (PyList []) ?np, Forward (Single 0) None ?np])
      = weights ?inst"
    using stored_fields_unchanged[of ?ext ?inst "[Step (PyList []) ?np, Forward (Single 0) None ?np]" ?np]
    by (elim conjE)
  moreover have "step ?ext (after_calls ?ext ?inst []) (PyList []) ?np =
       (case step_and_cost ?ext (opt (after_calls ?ext ?inst []))
               (\<lambda>v. cost ?ext ?inst (Some (NdArray v)) (y_d ?inst) ?np) (weights ?inst) of
          Inl e \<Rightarrow> Inl e
        | Inr (w2, c, st') \<Rightarrow> Inr ((w2, c), ?inst\<lparr>opt := st'\<rparr>))"
    using stored_fields_unchanged[of ?ext ?inst "[]" ?np]
    by (elim conjE)
  ultimately show ?thesis using c by (simp add: step_and_cost_def)
qed

section \<open>\<open>cost\<close> and \<open>step\<close> on a constructed instance\<close>

lemma cost_wf:
  assumes "wf_instructor nq nl inst"
    and "valid_weights (model inst) (case ws of Some w' \<Rightarrow> w' | None \<Rightarrow> NdArray (weights inst))"
    and "length ys = length (x_d inst)"
  shows "\<exists>c. cost ext inst ws ys np = Inr c"
proof (cases "nl = 0")
  case True
  with assms(1) have "wf_instructor nq 0 inst" by simp
  from forward_Batch_no_layers_wf[OF this assms(2)] show ?thesis
    by (simp add: cost_def)
next
  case False
  with assms(1) have "1 \<le> nl" and "x_d inst \<noteq> []" by (simp_all add: wf_instructor_def)
  from forward_Batch_wf[OF assms(1) this(1) assms(2) this(2)] assms(3) show ?thesis
    by (simp add: cost_def)
qed

lemma cost_wf_value:
  assumes "wf_instructor nq nl inst" and "1 \<le> nl"
    and "valid_weights (model inst) (case ws of Some w' \<Rightarrow> w' | None \<Rightarrow> NdArray (weights inst))"
    and "length ys = length (x_d inst)"
  shows "cost ext inst ws ys np =
     Inr (np_mean (map (\<lambda>(y, p). (y - p)\<^sup>2)
            (zip ys (map (predict ext (model inst)
               (case ws of Some w' \<Rightarrow> w' | None \<Rightarrow> NdArray (weights inst)) np) (x_d inst)))))"
proof -
  have "x_d inst \<noteq> []" using assms(1) by (simp add: wf_instructor_def)
  from forward_Batch_wf[OF assms(1-3) this] assms(4) show ?thesis by (simp add: cost_def)
qed

lemma length_concat_uniform:
  "list_all (\<lambda>r. length r = c) rows \<Longrightarrow> length (concat rows) = length rows * c"
  by (induction rows) auto

lemma np_array_valid:
  assumes "valid_weights m w" and "py_len w = Inr (Suc k)"
    and "n_params m = [n_layers m, n_qubits m * 3 - 1]"
  shows "\<exists>a. np_array w = Inr a \<and> valid_weights m (NdArray a)"
proof (cases w)
  case (NdArray a)
  then show ?thesis using assms(1) by simp
next
  case (PyList rows)
  with assms(2) obtain r rs where rows: "rows = r # rs" by (cases rows) auto
  have all: "list_all (\<lambda>r'. int (length r') = n_qubits m * 3 - 1) (r # rs)"
    and len: "int (length (r # rs)) = n_layers m"
    using assms(1) PyList rows by auto
  then have same: "list_all (\<lambda>r'. length r' = length r) (r # rs)"
    by (auto simp: list_all_iff)
  then have "length (concat (r # rs)) = length (r # rs) * length r"
    by (rule length_concat_uniform)
  then show ?thesis
    using PyList rows same all len assms(3) by simp
qed

lemma step_wf:
  assumes "wf_instructor nq nl inst" and "py_len w = Inr n"
    and "n = 0 \<or> valid_weights (model inst) w"
  shows "\<exists>w0 c. np_array (if n = 0 then NdArray (weights inst) else w) = Inr w0
     \<and> cost ext inst (Some (NdArray w0)) (y_d inst) np = Inr c
     \<and> step ext inst w np =
         (let upd = adam_apply ext (opt inst)
                      (autograd ext (\<lambda>v. cost ext inst (Some (NdArray v)) (y_d inst) np) w0) w0
          in Inr ((fst upd, c), inst\<lparr>opt := snd upd\<rparr>))"
proof -
  have "Model_init nq nl 19 False = Inr (model inst)"
    using assms(1) by (simp add: wf_instructor_def)
  from Model_init_fields[OF this]
  have np: "n_params (model inst) = [n_layers (model inst), n_qubits (model inst) * 3 - 1]"
    by simp
  have "\<exists>w0. np_array (if n = 0 then NdArray (weights inst) else w) = Inr w0
      \<and> valid_weights (model inst) (NdArray w0)"
  proof (cases n)
    case 0
    then show ?thesis using assms(1) by (simp add: wf_instructor_def)
  next
    case (Suc k)
    with assms(3) have "valid_weights (model inst) w" by simp
    from np_array_valid[OF this _ np, of k] assms(2) Suc show ?thesis by simp
  qed
  then obtain w0 where w0: "np_array (if n = 0 then NdArray (weights inst) else w) = Inr w0"
    and v: "valid_weights (model inst) (NdArray w0)" by blast
  have "length (y_d inst) = length (x_d inst)" using assms(1) by (simp add: wf_instructor_def)
  from cost_wf[OF assms(1), of "Some (NdArray w0)" "y_d inst" ext np] v this
  obtain c where c: "cost ext inst (Some (NdArray w0)) (y_d inst) np = Inr c" by auto
  have "step ext inst w np =
         (let upd = adam_apply ext (opt inst)
                      (autograd ext (\<lambda>v. cost ext inst (Some (NdArray v)) (y_d inst) np) w0) w0
          in Inr ((fst upd, c), inst\<lparr>opt := snd upd\<rparr>))"
    using assms(2) w0 c
    by (simp add: step_def step_and_cost_def Let_def split: prod.splits)
  with w0 c show ?thesis by blast
qed

text \<open>
  Claim C1. On a constructed \<open>Instructor\<close>, after any calls and for any noise setting,
  \<open>step\<close> with an argument that is empty or valid takes the stored initial weights for
  an empty argument (the argument itself otherwise), has the optimizer make one update of
  these weights by the gradient of \<open>cost\<close> over the stored domain and targets, and
  returns the updated weights together with the cost at the weights before the update.
\<close>

theorem step_one_update:
  assumes "Instructor_init ext nq nl sd = Inr inst0"
    and "inst = after_calls ext inst0 cs"
    and "py_len w = Inr n"
    and "n = 0 \<or> valid_weights (model inst0) w"
  shows "\<exists>w0 c. np_array (if n = 0 then NdArray (weights inst0) else w) = Inr w0
     \<and> cost ext inst0 (Some (NdArray w0)) (y_d inst0) np = Inr c
     \<and> step ext inst w np =
         (let upd = adam_apply ext (opt inst)
                      (autograd ext (\<lambda>v. cost ext inst0 (Some (NdArray v)) (y_d inst0) np) w0) w0
          in Inr ((fst upd, c), inst\<lparr>opt := snd upd\<rparr>))"
proof -
  have f: "inst = inst0\<lparr>opt := opt inst\<rparr>"
    unfolding assms(2) by (rule after_calls_frame)
  have wf: "wf_instructor nq nl inst"
    unfolding assms(2) wf_instructor_after_calls by (rule wf_instructor_init[OF assms(1)])
  have m: "model inst = model inst0" "weights inst = weights inst0" "y_d inst = y_d inst0"
    by (subst f, simp)+
  have c: "cost ext inst ws ys np = cost ext inst0 ws ys np" for ws ys
    by (subst f) (rule cost_opt)
  from step_wf[OF wf assms(3), of ext np] assms(4)
  show ?thesis unfolding m c by simp
qed

theorem step_one_update_witness:
  "\<exists>inst c. Instructor_init
       \<lparr>expval_Z = (\<lambda>d t q. 0), density_matrix = (\<lambda>d t. []), rng_random = (\<lambda>s i. 0),
        autograd = (\<lambda>f v. []), adam_init = (\<lambda>s. ()), adam_apply = (\<lambda>st g v. (v, ()))\<rparr>
       1 1 100 = Inr inst
     \<and> inst = after_calls
       \<lparr>expval_Z = (\<lambda>d t q. 0), density_matrix = (\<lambda>d t. []), rng_random = (\<lambda>s i. 0),
        autograd = (\<lambda>f v. []), adam_init = (\<lambda>s. ()), adam_apply = (\<lambda>st g v. (v, ()))\<rparr>
       inst []
     \<and> py_len (PyList []) = Inr 0
     \<and> step
       \<lparr>expval_Z = (\<lambda>d t q. 0), density_matrix = (\<lambda>d t. []), rng_random = (\<lambda>s i. 0),
        autograd = (\<lambda>f v. []), adam_init = (\<lambda>s. ()), adam_apply = (\<lambda>st g v. (v, ()))\<rparr>
       inst (PyList []) \<lparr>bf = 0, pf = 0, ad = 0, pd = 0, dp = 0\<rparr>
       = Inr ((weights inst, c), inst)"
proof -
  let ?ext = "\<lparr>expval_Z = (\<lambda>d t q. 0), density_matrix = (\<lambda>d t. []), rng_random = (\<lambda>s i. 0),
        autograd = (\<lambda>f v. []), adam_init = (\<lambda>s. ()), adam_apply = (\<lambda>st g v. (v, ()))\<rparr>"
  let ?np = "\<lparr>bf = 0, pf = 0, ad = 0, pd = 0, dp = 0\<rparr>"
  obtain inst where i: "Instructor_init ?ext 1 1 100 = Inr inst"
    unfolding Instructor_init_eq by simp
  have a: "inst = after_calls ?ext inst []" by simp
  have l: "py_len (PyList []) = Inr 0" by simp
  have d: "0 = (0::nat) \<or> valid_weights (model inst) (PyList [])" by simp
  from step_one_update[OF i a l d, of ?np]
  obtain c where "step ?ext inst (PyList []) ?np = Inr ((weights inst, c), inst)"
    by auto
  with i a l show ?thesis by (intro exI[of _ inst] exI[of _ c]) simp
qed

section \<open>The training callback and its cap\<close>






section \<open>The spectrum\<close>

lemma map_err_total:
  "(\<And>x. x \<in> set xs \<Longrightarrow> f x = Inr (g x)) \<Longrightarrow> map_err f xs = Inr (map g xs)"
  by (induction xs) auto

lemma length_bins: "0 \<le> d \<Longrightarrow> length [- d..d] = nat (2 * d + 1)"
  by simp

lemma magnitude_single:
  "magnitude [map f cs] [map g cs] = [map (\<lambda>c. sqrt ((f c)\<^sup>2 + (g c)\<^sup>2)) cs]"
  by (simp add: magnitude_def zip_map_map zip_same_conv_map comp_def)

lemma calc_hist_wf:
  assumes "wf_instructor nq nl inst"
    and "valid_weights (model inst) (case ws of Some w' \<Rightarrow> w' | None \<Rightarrow> NdArray (weights inst))"
  shows "calc_hist ext inst ws np =
     (let fs = map (predict ext (model inst)
                      (case ws of Some w' \<Rightarrow> w' | None \<Rightarrow> NdArray (weights inst)) np)
                   (sample_points (nq * nl));
          cs = map (fourier_coefficient fs) [- (nq * nl)..nq * nl]
      in Inr (nat (2 * (nq * nl) + 1),
              \<lparr>real_part = [map Re cs], imag_part = [map Im cs],
               comb = [map (\<lambda>c. sqrt ((Re c)\<^sup>2 + (Im c)\<^sup>2)) cs]\<rparr>))"
proof -
  let ?w = "case ws of Some w' \<Rightarrow> w' | None \<Rightarrow> NdArray (weights inst)"
  have mf: "max_freq inst = nq * nl" and pos: "0 \<le> nq * nl"
    using assms(1) by (simp_all add: wf_instructor_def)
  have "map_err (\<lambda>x. case forward ext inst (Single x) ws np of
                        Inl e \<Rightarrow> Inl e | Inr r \<Rightarrow> as_scalar r) (sample_points (nq * nl))
      = Inr (map (predict ext (model inst) ?w np) (sample_points (nq * nl)))"
    by (rule map_err_total) (simp add: forward_Single_wf[OF assms])
  then show ?thesis
    using length_bins[OF pos]
    by (simp add: calc_hist_def coefficients_def mf extract_data_and_labels_def Let_def
        magnitude_single comp_def)
qed

text \<open>
  Claim C6, as the code has it. For an \<open>Instructor\<close> constructed with
  \<open>(n_qubits, n_layers)\<close>, after any calls and for valid weights, \<open>calc_hist\<close> analyses
  \<open>forward\<close> up to the frequency \<open>max_freq = n_qubits * n_layers\<close>, over the bins
  \<open>-max_freq..max_freq\<close>. It returns the bin count \<open>2*max_freq + 1\<close> and, with the real
  and imaginary parts of the coefficients, the array \<open>comb = sqrt(real^2 + imag^2)\<close>.
  All three arrays have one row, since \<open>calc_hist\<close> hands over the coefficients of one
  function; the row of \<open>comb\<close> has as many entries as there are bins, the square roots
  of the squared real and imaginary parts, none of them negative.
\<close>

theorem calc_hist_bins:
  assumes "Instructor_init ext nq nl sd = Inr inst0"
    and "inst = after_calls ext inst0 cs"
    and "valid_weights (model inst0) (case ws of Some w' \<Rightarrow> w' | None \<Rightarrow> NdArray (weights inst0))"
  shows "max_freq inst = nq * nl
    \<and> (\<exists>fs d.
          map (\<lambda>x. forward ext inst (Single x) ws np) (sample_points (max_freq inst))
            = map (\<lambda>v. Inr (Expval (Single v))) fs
        \<and> calc_hist ext inst ws np = Inr (nat (2 * max_freq inst + 1), d)
        \<and> real_part d = [map (\<lambda>k. Re (fourier_coefficient fs k)) [- max_freq inst..max_freq inst]]
        \<and> imag_part d = [map (\<lambda>k. Im (fourier_coefficient fs k)) [- max_freq inst..max_freq inst]]
        \<and> comb d = [map (\<lambda>k. sqrt ((Re (fourier_coefficient fs k))\<^sup>2
                                     + (Im (fourier_coefficient fs k))\<^sup>2))
                       [- max_freq inst..max_freq inst]]
        \<and> length (comb d) = 1
        \<and> length (comb d ! 0) = nat (2 * max_freq inst + 1)
        \<and> list_all (\<lambda>v. 0 \<le> v) (comb d ! 0))"
proof -
  let ?w = "case ws of Some w' \<Rightarrow> w' | None \<Rightarrow> NdArray (weights inst0)"
  let ?M = "nq * nl"
  let ?fs = "map (predict ext (model inst0) ?w np) (sample_points ?M)"
  let ?cs = "map (fourier_coefficient ?fs) [- ?M..?M]"
  let ?row = "map (\<lambda>c. sqrt ((Re c)\<^sup>2 + (Im c)\<^sup>2)) ?cs"
  let ?d = "\<lparr>real_part = [map Re ?cs], imag_part = [map Im ?cs], comb = [?row]\<rparr>"
  note wf = wf_instructor_init[OF assms(1)]
  have f: "inst = inst0\<lparr>opt := opt inst\<rparr>"
    unfolding assms(2) by (rule after_calls_frame)
  have mf: "max_freq inst = ?M"
    using wf by (subst f) (simp add: wf_instructor_def)
  have pos: "0 \<le> ?M" using wf by (simp add: wf_instructor_def)
  have fw: "forward ext inst x ws np = forward ext inst0 x ws np" for x
    by (subst f) (rule forward_opt)
  have ch: "calc_hist ext inst ws np = calc_hist ext inst0 ws np"
    by (subst f) (rule calc_hist_opt)
  have 1: "map (\<lambda>x. forward ext inst (Single x) ws np) (sample_points (max_freq inst))
      = map (\<lambda>v. Inr (Expval (Single v))) ?fs"
    unfolding mf fw by (simp add: forward_Single_wf[OF wf assms(3)])
  have 2: "calc_hist ext inst ws np = Inr (nat (2 * max_freq inst + 1), ?d)"
    unfolding ch mf calc_hist_wf[OF wf assms(3)] by (simp add: Let_def)
  have 3: "comb ?d = [map (\<lambda>k. sqrt ((Re (fourier_coefficient ?fs k))\<^sup>2
                                     + (Im (fourier_coefficient ?fs k))\<^sup>2))
                       [- max_freq inst..max_freq inst]]"
    unfolding mf by (simp add: comp_def)
  have 4: "length (comb ?d ! 0) = nat (2 * max_freq inst + 1)"
    unfolding mf using length_bins[OF pos] by simp
  have 5: "list_all (\<lambda>v. 0 \<le> v) (comb ?d ! 0)"
    by (simp add: list_all_iff)
  have 6: "real_part ?d = [map (\<lambda>k. Re (fourier_coefficient ?fs k)) [- max_freq inst..max_freq inst]]"
    "imag_part ?d = [map (\<lambda>k. Im (fourier_coefficient ?fs k)) [- max_freq inst..max_freq inst]]"
    unfolding mf by (simp_all add: comp_def)
  have 7: "length (comb ?d) = 1" by simp
  from 1 2 3 4 5 6 7 have "\<exists>fs d.
          map (\<lambda>x. forward ext inst (Single x) ws np) (sample_points (max_freq inst))
            = map (\<lambda>v. Inr (Expval (Single v))) fs
        \<and> calc_hist ext inst ws np = Inr (nat (2 * max_freq inst + 1), d)
        \<and> real_part d = [map (\<lambda>k. Re (fourier_coefficient fs k)) [- max_freq inst..max_freq inst]]
        \<and> imag_part d = [map (\<lambda>k. Im (fourier_coefficient fs k)) [- max_freq inst..max_freq inst]]
        \<and> comb d = [map (\<lambda>k. sqrt ((Re (fourier_coefficient fs k))\<^sup>2
                                     + (Im (fourier_coefficient fs k))\<^sup>2))
                       [- max_freq inst..max_freq inst]]
        \<and> length (comb d) = 1
        \<and> length (comb d ! 0) = nat (2 * max_freq inst + 1)
        \<and> list_all (\<lambda>v. 0 \<le> v) (comb d ! 0)"
    by (intro exI[of _ ?fs] exI[of _ ?d] conjI)
  with mf show ?thesis by (rule conjI)
qed

theorem calc_hist_bins_witness:
  "\<exists>inst d. Instructor_init
       \<lparr>expval_Z = (\<lambda>d t q. 1), density_matrix = (\<lambda>d t. []), rng_random = (\<lambda>s i. 0),
        autograd = (\<lambda>f v. []), adam_init = (\<lambda>s. ()), adam_apply = (\<lambda>st g v. (v, ()))\<rparr>
       2 4 100 = Inr inst
     \<and> inst = after_calls
       \<lparr>expval_Z = (\<lambda>d t q. 1), density_matrix = (\<lambda>d t. []), rng_random = (\<lambda>s i. 0),
        autograd = (\<lambda>f v. []), adam_init = (\<lambda>s. ()), adam_apply = (\<lambda>st g v. (v, ()))\<rparr>
       inst []
     \<and> valid_weights (model inst) (NdArray (weights inst))
     \<and> max_freq inst = 8
     \<and> calc_hist
       \<lparr>expval_Z = (\<lambda>d t q. 1), density_matrix = (\<lambda>d t. []), rng_random = (\<lambda>s i. 0),
        autograd = (\<lambda>f v. []), adam_init = (\<lambda>s. ()), adam_apply = (\<lambda>st g v. (v, ()))\<rparr>
       inst None \<lparr>bf = 0, pf = 0, ad = 0, pd = 0, dp = 0\<rparr> = Inr (17, d)
     \<and> length (comb d) = 1 \<and> length (comb d ! 0) = 17 \<and> list_all (\<lambda>v. 0 \<le> v) (comb d ! 0)"
proof -
  let ?ext = "\<lparr>expval_Z = (\<lambda>d t q. 1), density_matrix = (\<lambda>d t. []), rng_random = (\<lambda>s i. 0),
        autograd = (\<lambda>f v. []), adam_init = (\<lambda>s. ()), adam_apply = (\<lambda>st g v. (v, ()))\<rparr>"
  let ?np = "\<lparr>bf = 0, pf = 0, ad = 0, pd = 0, dp = 0\<rparr>"
  obtain inst where i: "Instructor_init ?ext 2 4 100 = Inr inst"
    unfolding Instructor_init_eq by simp
  have a: "inst = after_calls ?ext inst []" by simp
  have v: "valid_weights (model inst) (case None of Some w' \<Rightarrow> w' | None \<Rightarrow> NdArray (weights inst))"
    using wf_instructor_init[OF i] by (simp add: wf_instructor_def)
  note t = calc_hist_bins[OF i a v, of ?np]
  from t have m: "max_freq inst = 8" by simp
  from t obtain d where "calc_hist ?ext inst None ?np = Inr (nat (2 * max_freq inst + 1), d)"
    and "length (comb d) = 1" and "length (comb d ! 0) = nat (2 * max_freq inst + 1)"
    and "list_all (\<lambda>v. 0 \<le> v) (comb d ! 0)"
    by blast
  then have "calc_hist ?ext inst None ?np = Inr (17, d)" "length (comb d) = 1"
    "length (comb d ! 0) = 17" "list_all (\<lambda>v. 0 \<le> v) (comb d ! 0)"
    unfolding m by simp_all
  with i a v m show ?thesis by (intro exI[of _ inst] exI[of _ d]) simp
qed

text \<open>
  The claim as stated fails: with 2 qubits and 4 layers the bin count is 17, while
  \<open>comb\<close> is an array of one row and so has length 1; the 17 entries are those of its
  row \<open>comb[0]\<close>, which is what the dashboard plots.
\<close>

theorem calc_hist_comb_length_counterexample:
  "(case Instructor_init
           \<lparr>expval_Z = (\<lambda>d t q. 1), density_matrix = (\<lambda>d t. []), rng_random = (\<lambda>s i. 0),
        autograd = (\<lambda>f v. []), adam_init = (\<lambda>s. ()), adam_apply = (\<lambda>st g v. (v, ()))\<rparr>
           2 4 100 of
      Inl e \<Rightarrow> None
    | Inr inst \<Rightarrow>
        (case calc_hist
                \<lparr>expval_Z = (\<lambda>d t q. 1), density_matrix = (\<lambda>d t. []), rng_random = (\<lambda>s i. 0),
        autograd = (\<lambda>f v. []), adam_init = (\<lambda>s. ()), adam_apply = (\<lambda>st g v. (v, ()))\<rparr>
                inst None \<lparr>bf = 0, pf = 0, ad = 0, pd = 0, dp = 0\<rparr> of
           Inl e \<Rightarrow> None
         | Inr (n, d) \<Rightarrow> Some (n, length (comb d), length (comb d ! 0))))
     = Some (17, 1, 17)"
proof -
  let ?ext = "\<lparr>expval_Z = (\<lambda>d t q. 1), density_matrix = (\<lambda>d t. []), rng_random = (\<lambda>s i. 0),
        autograd = (\<lambda>f v. []), adam_init = (\<lambda>s. ()), adam_apply = (\<lambda>st g v. (v, ()))\<rparr>"
  let ?np = "\<lparr>bf = 0, pf = 0, ad = 0, pd = 0, dp = 0\<rparr>"
  obtain inst where i: "Instructor_init ?ext 2 4 100 = Inr inst"
    unfolding Instructor_init_eq by simp
  note wf = wf_instructor_init[OF i]
  have v: "valid_weights (model inst) (case None of Some w' \<Rightarrow> w' | None \<Rightarrow> NdArray (weights inst))"
    using wf by (simp add: wf_instructor_def)
  have "0 \<le> (8::int)" by simp
  from length_bins[OF this] have "length [- 8..8::int] = 17" by simp
  then show ?thesis
    unfolding i using calc_hist_wf[OF wf v, of ?ext ?np]
    by (simp add: Let_def)
qed

end
